theory Spec2Isabelle
  imports Main "HOL-Library.AList" "HOL-Library.Sublist"
begin

section \<open>The model editor server of cube-editor\<close>

text \<open>
  The Express server of the cube editor keeps the Cube.js model files of a Kubernetes
  ConfigMap in a JavaScript object \<^verbatim>\<open>currentModels\<close>, rewrites the ConfigMap file
  \<^verbatim>\<open>cube-models.yaml\<close> on every deploy and delete, and drives \<^verbatim>\<open>kubectl\<close>
  through \<^verbatim>\<open>child_process.exec\<close>. The browser side (\<^verbatim>\<open>script.js\<close>) has its own
  \<^verbatim>\<open>validateModel\<close>.

  Conventions of the embedding.
  \<^item> A JavaScript object with string values is the list of its own entries, in the order
    \<^verbatim>\<open>Object.keys\<close> enumerates them. \<^verbatim>\<open>o[k] = v\<close> is \<^const>\<open>AList.update\<close>
    (overwrite in place, or append), \<^verbatim>\<open>delete o[k]\<close> is \<^const>\<open>AList.delete\<close>,
    \<^verbatim>\<open>o[k]\<close> is \<^const>\<open>map_of\<close> (\<open>None\<close> for \<^verbatim>\<open>undefined\<close>). Property names are
    taken to be ordinary ones: not integer-like (which JavaScript enumerates first) and
    not a member of \<^verbatim>\<open>Object.prototype\<close>; in particular not \<^verbatim>\<open>__proto__\<close>, for which
    an assignment stores nothing.
  \<^item> A string is the list of its characters. The patterns the server searches for are
    ASCII, so \<^verbatim>\<open>includes\<close> and \<^verbatim>\<open>replace\<close> find the same occurrences in the bytes
    of a text as in its UTF-16 code units.
  \<^item> \<^verbatim>\<open>js-yaml\<close> is a library outside the repository. The ConfigMap file is modelled by
    what \<^verbatim>\<open>yaml.load\<close> returns for its content, so \<^verbatim>\<open>yaml.dump\<close> followed by
    \<^verbatim>\<open>yaml.load\<close> is the identity on the documents the server writes. Whether
    \<^verbatim>\<open>yaml.dump\<close> or \<^verbatim>\<open>fs.writeFileSync\<close> throws is a parameter
    (\<open>write_error\<close>); a write that throws leaves the file as it was.
  \<^item> The outcome of a shell command is not decided by the repository: it is a parameter
    (\<open>exec\<close>), a function of the command, the file on disk and the state of the world
    outside the process. The same holds for the JavaScript parser behind
    \<^verbatim>\<open>new Function(code)\<close>, for \<^verbatim>\<open>JSON.parse\<close> of a deployment descriptor and for
    the file system under the write of the document.
  \<^item> Every command the server runs is recorded in \<open>trace\<close>, with its outcome and with
    the object and the file as they were when the command started. The trace is an
    observer: no function of the server reads it.
\<close>

subsection \<open>Strings\<close>

text \<open>\<^verbatim>\<open>s.includes(pat)\<close>: does \<open>pat\<close> occur in \<open>s\<close>.\<close>

fun str_includes :: "string \<Rightarrow> string \<Rightarrow> bool" where
  "str_includes [] pat = (pat = [])"
| "str_includes (c # cs) pat = (prefix pat (c # cs) \<or> str_includes cs pat)"

text \<open>\<^verbatim>\<open>s.replace(pat, rep)\<close> with a string pattern: only the first occurrence of
  \<open>pat\<close> is replaced.\<close>

fun str_replace :: "string \<Rightarrow> string \<Rightarrow> string \<Rightarrow> string" where
  "str_replace [] pat rep = (if pat = [] then rep else [])"
| "str_replace (c # cs) pat rep =
     (if prefix pat (c # cs) then rep @ drop (length pat) (c # cs)
      else c # str_replace cs pat rep)"

text \<open>\<^verbatim>\<open>xs.findIndex(p)\<close>: the index of the first element that satisfies \<open>p\<close>, or -1.\<close>

fun findIndex :: "('a \<Rightarrow> bool) \<Rightarrow> 'a list \<Rightarrow> int" where
  "findIndex p [] = - 1"
| "findIndex p (x # xs) =
     (if p x then 0 else (let i = findIndex p xs in if i = - 1 then - 1 else i + 1))"

subsection \<open>Data\<close>

type_synonym jsobj = "(string \<times> string) list"

text \<open>The ConfigMap object the server builds; \<open>data\<close> is \<open>None\<close> when a document
  read from disk has no (truthy) \<^verbatim>\<open>data\<close> field.\<close>

record configMap =
  apiVersion :: string
  kind :: string
  metadata_name :: string
  metadata_namespace :: string
  data :: "jsobj option"

text \<open>What \<^verbatim>\<open>yaml.load\<close> returns: a falsy value (an empty document) or a ConfigMap.\<close>

datatype yamlDoc = YNull | YConfigMap configMap

text \<open>The command lines, by their template in the server:
  \<^item> \<open>KubectlApply\<close>: \<^verbatim>\<open>kubectl apply -f ${CONFIGMAP_PATH}\<close>
  \<^item> \<open>RolloutRestart\<close>: \<^verbatim>\<open>kubectl rollout restart deployment/cube -n ${NAMESPACE}\<close>
  \<^item> \<open>GetDeploymentYaml\<close>: \<^verbatim>\<open>kubectl get deployment cube -n ${NAMESPACE} -o yaml\<close>
  \<^item> \<open>GetDeploymentJson\<close>: \<^verbatim>\<open>kubectl get deployment cube -n ${NAMESPACE} -o json\<close>
  \<^item> \<open>PatchAddMount modelName\<close>: the JSON patch that adds (\<^verbatim>\<open>"op": "add"\<close>, at
    \<^verbatim>\<open>volumeMounts/-\<close>) a mount of \<^verbatim>\<open>${modelName}.js\<close>
  \<^item> \<open>PatchRemoveMount mountIndex\<close>: the JSON patch that removes
    \<^verbatim>\<open>volumeMounts/${mountIndex}\<close>
  \<^item> \<open>RolloutStatus\<close>:
    \<^verbatim>\<open>kubectl rollout status deployment/cube -n ${NAMESPACE} --timeout=60s\<close>\<close>

datatype command =
    KubectlApply
  | RolloutRestart
  | GetDeploymentYaml
  | GetDeploymentJson
  | PatchAddMount string
  | PatchRemoveMount int
  | RolloutStatus

text \<open>The outcome of \<^verbatim>\<open>exec\<close>: \<open>Inl message\<close> when the callback gets an error (a
  non-zero exit, a timeout), \<open>Inr stdout\<close> otherwise.\<close>

type_synonym outcome = "string + string"

record event =
  cmd :: command
  outcome :: outcome
  models_at :: jsobj
  disk_at :: "yamlDoc option"

text \<open>What the repository does not decide.\<close>

record 'w env =
  exec :: "command \<Rightarrow> yamlDoc option \<Rightarrow> 'w \<Rightarrow> outcome \<times> 'w"
  new_Function :: "string \<Rightarrow> string option"
  volumeMounts_of :: "string \<Rightarrow> string + string list"
  write_error :: "configMap \<Rightarrow> 'w \<Rightarrow> string option"

text \<open>
  \<^item> \<open>write_error configMap w\<close> is \<open>Some message\<close> when
    \<^verbatim>\<open>yaml.dump(configMap)\<close> or \<^verbatim>\<open>fs.writeFileSync(CONFIGMAP_PATH, yamlContent)\<close>
    throws in the world \<open>w\<close> (a missing directory, a file that may not be written),
    \<open>None\<close> when the document is written.
  \<^item> \<open>new_Function code\<close> is \<open>Some message\<close> when \<^verbatim>\<open>new Function(code)\<close> throws a
    SyntaxError, \<open>None\<close> when the text parses as a function body.
  \<^item> \<open>volumeMounts_of json\<close> is
    \<^verbatim>\<open>JSON.parse(json).spec.template.spec.containers[0].volumeMounts\<close>, as the list of
    the \<^verbatim>\<open>mountPath\<close> of each mount, or \<open>Inl message\<close> when that expression (or the
    \<^verbatim>\<open>findIndex\<close> on its value) throws.
\<close>

text \<open>The process and its surroundings: \<open>disk\<close> is the content of
  \<^verbatim>\<open>CONFIGMAP_PATH\<close> (\<open>None\<close>: reading or parsing it throws).\<close>

record 'w server =
  currentModels :: jsobj
  disk :: "yamlDoc option"
  world :: 'w
  trace :: "event list"

datatype response =
    ModelsResp jsobj
  | ModelResp string
  | NotFound string
  | ValidateResp bool string
  | DeployOk "(string \<times> string) list"
  | DeleteOk string
  | ServerError string

text \<open>
  \<^item> \<open>ModelsResp models\<close>: 200 \<^verbatim>\<open>{success: true, models}\<close>
  \<^item> \<open>ModelResp model\<close>: 200 \<^verbatim>\<open>{success: true, model}\<close>
  \<^item> \<open>NotFound message\<close>: 404 \<^verbatim>\<open>{success: false, message}\<close>
  \<^item> \<open>ValidateResp success message\<close>: 200 \<^verbatim>\<open>{success, message}\<close>
  \<^item> \<open>DeployOk steps\<close>: 200 \<^verbatim>\<open>{success: true, message: 'Deployment successful', steps}\<close>,
    each step a pair of its label and the captured output
  \<^item> \<open>DeleteOk message\<close>: 200 \<^verbatim>\<open>{success: true, message}\<close>
  \<^item> \<open>ServerError message\<close>: 500 \<^verbatim>\<open>{success: false, message: error.message}\<close>
\<close>

subsection \<open>Constants and helpers of the server\<close>

definition NAMESPACE :: string where
  "NAMESPACE = ''stcs''"

definition CONFIGMAP_NAME :: string where
  "CONFIGMAP_NAME = ''cube-models''"

text \<open>The template \<^verbatim>\<open>/cube/conf/model/${modelName}.js\<close>.\<close>

definition mountPath :: "string \<Rightarrow> string" where
  "mountPath modelName = ''/cube/conf/model/'' @ modelName @ ''.js''"

text \<open>Sequencing of awaited steps: a rejected promise (\<open>Inl\<close>) skips the rest of the
  \<^verbatim>\<open>try\<close> block.\<close>

definition bind ::
  "('s \<Rightarrow> (string + 'a) \<times> 's) \<Rightarrow> ('a \<Rightarrow> 's \<Rightarrow> (string + 'b) \<times> 's) \<Rightarrow> 's \<Rightarrow> (string + 'b) \<times> 's" where
  "bind m f s = (case m s of (Inl e, s') \<Rightarrow> (Inl e, s') | (Inr a, s') \<Rightarrow> f a s')"

definition ret :: "'a \<Rightarrow> 's \<Rightarrow> (string + 'a) \<times> 's" where
  "ret a s = (Inr a, s)"

text \<open>\<^verbatim>\<open>executeCommand(command, description)\<close>: the promise rejects with the error of
  \<^verbatim>\<open>exec\<close> and resolves with stdout otherwise.\<close>

definition executeCommand :: "'w env \<Rightarrow> command \<Rightarrow> 'w server \<Rightarrow> outcome \<times> 'w server" where
  "executeCommand en c s =
     (case exec en c (disk s) (world s) of
        (r, w') \<Rightarrow>
          (r, s\<lparr>world := w',
                trace := trace s @
                  [\<lparr>cmd = c, outcome = r, models_at = currentModels s, disk_at = disk s\<rparr>]\<rparr>))"

text \<open>\<^verbatim>\<open>checkIfModelMountExists(modelName)\<close>: the \<^verbatim>\<open>catch\<close> turns a failed query into
  \<^verbatim>\<open>false\<close>.\<close>

definition checkIfModelMountExists :: "'w env \<Rightarrow> string \<Rightarrow> 'w server \<Rightarrow> bool \<times> 'w server" where
  "checkIfModelMountExists en modelName s =
     (case executeCommand en GetDeploymentYaml s of
        (Inl error, s') \<Rightarrow> (False, s')
      | (Inr deploymentYaml, s') \<Rightarrow> (str_includes deploymentYaml (mountPath modelName), s'))"

text \<open>The ConfigMap both handlers build from \<^verbatim>\<open>currentModels\<close>: the loop
  \<^verbatim>\<open>Object.keys(currentModels).forEach(name => configMap.data[`${name}.js`] = currentModels[name])\<close>
  visits the entries in order.\<close>

definition models_data :: "jsobj \<Rightarrow> jsobj" where
  "models_data models = fold (\<lambda>(name, text) d. AList.update (name @ ''.js'') text d) models []"

definition build_configMap :: "jsobj \<Rightarrow> configMap" where
  "build_configMap models =
     \<lparr>apiVersion = ''v1'', kind = ''ConfigMap'', metadata_name = CONFIGMAP_NAME,
      metadata_namespace = NAMESPACE, data = Some (models_data models)\<rparr>"

text \<open>The two statements \<^verbatim>\<open>const yamlContent = yaml.dump(configMap)\<close> and
  \<^verbatim>\<open>fs.writeFileSync(CONFIGMAP_PATH, yamlContent)\<close> of both handlers. They stand inside
  the \<^verbatim>\<open>try\<close> block: when one throws, the file is not written and the rest of the block
  is skipped.\<close>

definition writeConfigMap :: "'w env \<Rightarrow> configMap \<Rightarrow> 'w server \<Rightarrow> (string + unit) \<times> 'w server" where
  "writeConfigMap en cm s =
     (case write_error en cm (world s) of
        Some message \<Rightarrow> (Inl message, s)
      | None \<Rightarrow> (Inr (), s\<lparr>disk := Some (YConfigMap cm)\<rparr>))"

subsection \<open>Loading, listing, reading\<close>

text \<open>\<^verbatim>\<open>loadExistingModels()\<close>: every key of the document's data is written into
  \<^verbatim>\<open>currentModels\<close> under \<^verbatim>\<open>key.replace('.js', '')\<close>; the object is not emptied
  first. The function returns the object, or \<^verbatim>\<open>{}\<close> from its \<^verbatim>\<open>catch\<close>.\<close>

definition loadExistingModels :: "'w server \<Rightarrow> jsobj \<times> 'w server" where
  "loadExistingModels s =
     (case disk s of
        None \<Rightarrow> ([], s)
      | Some YNull \<Rightarrow> (currentModels s, s)
      | Some (YConfigMap cm) \<Rightarrow>
          (case data cm of
             None \<Rightarrow> (currentModels s, s)
           | Some d \<Rightarrow>
               (let models =
                      fold (\<lambda>(key, text) m. AList.update (str_replace key ''.js'' '''') text m)
                        d (currentModels s)
                in (models, s\<lparr>currentModels := models\<rparr>))))"

text \<open>The start of the process: \<^verbatim>\<open>let currentModels = {}\<close>, then
  \<^verbatim>\<open>loadExistingModels()\<close>.\<close>

definition start_server :: "'w server \<Rightarrow> 'w server" where
  "start_server s = snd (loadExistingModels (s\<lparr>currentModels := []\<rparr>))"

text \<open>\<^verbatim>\<open>GET /api/models\<close>.\<close>

definition get_api_models :: "'w server \<Rightarrow> response \<times> 'w server" where
  "get_api_models s = (let s' = snd (loadExistingModels s) in (ModelsResp (currentModels s'), s'))"

text \<open>\<^verbatim>\<open>GET /api/models/:name\<close>: the test \<^verbatim>\<open>if (currentModels[modelName])\<close> is on the
  truthiness of the value, and the empty string is falsy.\<close>

definition get_api_model :: "string \<Rightarrow> 'w server \<Rightarrow> response \<times> 'w server" where
  "get_api_model modelName s =
     (case map_of (currentModels s) modelName of
        Some text \<Rightarrow>
          if text \<noteq> [] then (ModelResp text, s)
          else (NotFound (''Model '' @ modelName @ '' not found''), s)
      | None \<Rightarrow> (NotFound (''Model '' @ modelName @ '' not found''), s))"

subsection \<open>Validation\<close>

text \<open>\<^verbatim>\<open>POST /api/validate\<close> of the server.\<close>

definition post_api_validate :: "'w env \<Rightarrow> string \<Rightarrow> response" where
  "post_api_validate en code =
     (if \<not> str_includes code ''cube('' \<and> \<not> str_includes code ''view('' then
        ValidateResp False ''Model must contain a cube() or view() function''
      else
        (case new_Function en code of
           Some message \<Rightarrow> ValidateResp False message
         | None \<Rightarrow> ValidateResp True ''Model is valid''))"

text \<open>\<^verbatim>\<open>validateModel()\<close> of the editor (\<^verbatim>\<open>script.js\<close>), on the editor's text:
  \<open>Inl message\<close> is the error it shows (it returns \<^verbatim>\<open>false\<close>), \<open>Inr ()\<close> is
  \<^verbatim>\<open>true\<close>.\<close>

definition validateModel :: "'w env \<Rightarrow> string \<Rightarrow> string + unit" where
  "validateModel en code =
     (if \<not> str_includes code ''cube('' \<and> \<not> str_includes code ''view('' then
        Inl ''Model must contain a cube() or view() function''
      else if \<not> str_includes code ''sql:'' \<and> \<not> str_includes code ''cubes:'' then
        Inl ''Model must contain SQL definition or cube references''
      else
        (case new_Function en code of
           Some message \<Rightarrow> Inl message
         | None \<Rightarrow> Inr ()))"

subsection \<open>Deploy\<close>

text \<open>The awaited steps of \<^verbatim>\<open>POST /api/deploy\<close>, which follow the write of the file. The local
  array \<^verbatim>\<open>steps\<close> is returned at the end.\<close>

definition deploy_steps :: "'w env \<Rightarrow> string \<Rightarrow> 'w server \<Rightarrow> (string + (string \<times> string) list) \<times> 'w server" where
  "deploy_steps en modelName =
     bind (executeCommand en KubectlApply) (\<lambda>out1.
     bind (executeCommand en RolloutRestart) (\<lambda>out2.
     bind (\<lambda>s. case checkIfModelMountExists en modelName s of (b, s') \<Rightarrow> (Inr b, s')) (\<lambda>mountExists.
     bind (if \<not> mountExists
           then bind (executeCommand en (PatchAddMount modelName)) (\<lambda>out3. ret [(''mount'', out3)])
           else ret []) (\<lambda>mount.
     bind (executeCommand en RolloutStatus) (\<lambda>out4.
     ret ([(''apply'', out1), (''restart'', out2)] @ mount @ [(''status'', out4)]))))))"

definition post_api_deploy :: "'w env \<Rightarrow> string \<Rightarrow> string \<Rightarrow> 'w server \<Rightarrow> response \<times> 'w server" where
  "post_api_deploy en modelName code s =
     (let s1 = s\<lparr>currentModels := AList.update modelName code (currentModels s)\<rparr>
      in case bind (writeConfigMap en (build_configMap (currentModels s1)))
                (\<lambda>u. deploy_steps en modelName) s1 of
           (Inl message, s') \<Rightarrow> (ServerError message, s')
         | (Inr steps, s') \<Rightarrow> (DeployOk steps, s'))"

subsection \<open>Delete\<close>

definition remove_mount :: "'w env \<Rightarrow> string \<Rightarrow> 'w server \<Rightarrow> (string + unit) \<times> 'w server" where
  "remove_mount en modelName =
     bind (executeCommand en GetDeploymentJson) (\<lambda>deploymentYaml.
     bind (\<lambda>s. (volumeMounts_of en deploymentYaml, s)) (\<lambda>volumeMounts.
       (let mountIndex = findIndex (\<lambda>mount. mount = mountPath modelName) volumeMounts
        in if mountIndex \<noteq> - 1
           then bind (executeCommand en (PatchRemoveMount mountIndex)) (\<lambda>out. ret ())
           else ret ())))"

definition delete_steps :: "'w env \<Rightarrow> string \<Rightarrow> 'w server \<Rightarrow> (string + unit) \<times> 'w server" where
  "delete_steps en modelName =
     bind (executeCommand en KubectlApply) (\<lambda>out1.
     bind (\<lambda>s. case checkIfModelMountExists en modelName s of (b, s') \<Rightarrow> (Inr b, s')) (\<lambda>mountExists.
     bind (if mountExists then remove_mount en modelName else ret ()) (\<lambda>u.
     bind (executeCommand en RolloutRestart) (\<lambda>out2. ret ()))))"

text \<open>\<^verbatim>\<open>DELETE /api/models/:name\<close>.\<close>

definition delete_api_model :: "'w env \<Rightarrow> string \<Rightarrow> 'w server \<Rightarrow> response \<times> 'w server" where
  "delete_api_model en modelName s =
     (let s1 = s\<lparr>currentModels := AList.delete modelName (currentModels s)\<rparr>
      in case bind (writeConfigMap en (build_configMap (currentModels s1)))
                (\<lambda>u. delete_steps en modelName) s1 of
           (Inl message, s') \<Rightarrow> (ServerError message, s')
         | (Inr u, s') \<Rightarrow> (DeleteOk (''Model '' @ modelName @ '' deleted successfully''), s'))"

subsection \<open>Observing a request\<close>

text \<open>The commands a request ran: the events it appended to the trace, and their
  commands and outcomes.\<close>

definition new_events :: "'w server \<Rightarrow> 'w server \<Rightarrow> event list" where
  "new_events s s' = drop (length (trace s)) (trace s')"

definition io :: "event list \<Rightarrow> (command \<times> outcome) list" where
  "io evs = map (\<lambda>e. (cmd e, outcome e)) evs"

definition all_succeeded :: "event list \<Rightarrow> bool" where
  "all_succeeded evs = list_all (\<lambda>e. case outcome e of Inl error \<Rightarrow> False | Inr out \<Rightarrow> True) evs"

text \<open>What \<^const>\<open>checkIfModelMountExists\<close> makes of the outcome of its query.\<close>

definition mount_reported :: "string \<Rightarrow> outcome \<Rightarrow> bool" where
  "mount_reported modelName q =
     (case q of
        Inl error \<Rightarrow> False
      | Inr deploymentYaml \<Rightarrow> str_includes deploymentYaml (mountPath modelName))"

text \<open>The data section of the document on disk.\<close>

definition data_section :: "'w server \<Rightarrow> jsobj option" where
  "data_section s =
     (case disk s of
        None \<Rightarrow> None
      | Some YNull \<Rightarrow> None
      | Some (YConfigMap cm) \<Rightarrow> data cm)"

text \<open>\<open>runs_to s evs s'\<close>: the state \<open>s'\<close> is \<open>s\<close> after the commands \<open>evs\<close>, which
  left the object and the file alone.\<close>

definition runs_to :: "'w server \<Rightarrow> (command \<times> outcome) list \<Rightarrow> 'w server \<Rightarrow> bool" where
  "runs_to s evs s' \<longleftrightarrow>
     currentModels s' = currentModels s \<and> disk s' = disk s \<and>
     trace s' = trace s @
       map (\<lambda>(c, a). \<lparr>cmd = c, outcome = a, models_at = currentModels s, disk_at = disk s\<rparr>) evs"

text \<open>The shapes a run of the deploy steps can take: the commands with their outcomes,
  and what the \<^verbatim>\<open>try\<close> block ends with.\<close>

inductive deploy_run :: "string \<Rightarrow> (command \<times> outcome) list \<Rightarrow> string + (string \<times> string) list \<Rightarrow> bool"
  for n :: string where
    apply_failed: "deploy_run n [(KubectlApply, Inl e)] (Inl e)"
  | restart_failed: "deploy_run n [(KubectlApply, Inr o1), (RolloutRestart, Inl e)] (Inl e)"
  | patch_failed: "\<not> mount_reported n q \<Longrightarrow>
      deploy_run n [(KubectlApply, Inr o1), (RolloutRestart, Inr o2), (GetDeploymentYaml, q),
         (PatchAddMount n, Inl e)] (Inl e)"
  | status_failed_new: "\<not> mount_reported n q \<Longrightarrow>
      deploy_run n [(KubectlApply, Inr o1), (RolloutRestart, Inr o2), (GetDeploymentYaml, q),
         (PatchAddMount n, Inr o3), (RolloutStatus, Inl e)] (Inl e)"
  | ok_new: "\<not> mount_reported n q \<Longrightarrow>
      deploy_run n [(KubectlApply, Inr o1), (RolloutRestart, Inr o2), (GetDeploymentYaml, q),
         (PatchAddMount n, Inr o3), (RolloutStatus, Inr o4)]
        (Inr [(''apply'', o1), (''restart'', o2), (''mount'', o3), (''status'', o4)])"
  | status_failed_old: "mount_reported n q \<Longrightarrow>
      deploy_run n [(KubectlApply, Inr o1), (RolloutRestart, Inr o2), (GetDeploymentYaml, q),
         (RolloutStatus, Inl e)] (Inl e)"
  | ok_old: "mount_reported n q \<Longrightarrow>
      deploy_run n [(KubectlApply, Inr o1), (RolloutRestart, Inr o2), (GetDeploymentYaml, q),
         (RolloutStatus, Inr o4)]
        (Inr [(''apply'', o1), (''restart'', o2), (''status'', o4)])"

text \<open>What the final restart of a delete leaves the \<^verbatim>\<open>try\<close> block with.\<close>

definition restart_result :: "outcome \<Rightarrow> string + unit" where
  "restart_result x = (case x of Inl e \<Rightarrow> Inl e | Inr out \<Rightarrow> Inr ())"

text \<open>The shapes a run of the delete steps can take.\<close>

inductive delete_run :: "'w env \<Rightarrow> string \<Rightarrow> (command \<times> outcome) list \<Rightarrow> string + unit \<Rightarrow> bool"
  for en :: "'w env" and n :: string where
    del_apply_failed: "delete_run en n [(KubectlApply, Inl e)] (Inl e)"
  | del_unmounted: "\<not> mount_reported n q \<Longrightarrow>
      delete_run en n [(KubectlApply, Inr o1), (GetDeploymentYaml, q), (RolloutRestart, x)]
        (restart_result x)"
  | del_json_failed: "mount_reported n q \<Longrightarrow>
      delete_run en n [(KubectlApply, Inr o1), (GetDeploymentYaml, q), (GetDeploymentJson, Inl e)]
        (Inl e)"
  | del_parse_failed: "mount_reported n q \<Longrightarrow> volumeMounts_of en j = Inl e \<Longrightarrow>
      delete_run en n [(KubectlApply, Inr o1), (GetDeploymentYaml, q), (GetDeploymentJson, Inr j)]
        (Inl e)"
  | del_not_listed: "mount_reported n q \<Longrightarrow> volumeMounts_of en j = Inr ms \<Longrightarrow>
      findIndex (\<lambda>mount. mount = mountPath n) ms = - 1 \<Longrightarrow>
      delete_run en n [(KubectlApply, Inr o1), (GetDeploymentYaml, q), (GetDeploymentJson, Inr j),
         (RolloutRestart, x)] (restart_result x)"
  | del_patch_failed: "mount_reported n q \<Longrightarrow> volumeMounts_of en j = Inr ms \<Longrightarrow>
      findIndex (\<lambda>mount. mount = mountPath n) ms = i \<Longrightarrow> i \<noteq> - 1 \<Longrightarrow>
      delete_run en n [(KubectlApply, Inr o1), (GetDeploymentYaml, q), (GetDeploymentJson, Inr j),
         (PatchRemoveMount i, Inl e)] (Inl e)"
  | del_patched: "mount_reported n q \<Longrightarrow> volumeMounts_of en j = Inr ms \<Longrightarrow>
      findIndex (\<lambda>mount. mount = mountPath n) ms = i \<Longrightarrow> i \<noteq> - 1 \<Longrightarrow>
      delete_run en n [(KubectlApply, Inr o1), (GetDeploymentYaml, q), (GetDeploymentJson, Inr j),
         (PatchRemoveMount i, Inr o3), (RolloutRestart, x)] (restart_result x)"

subsection \<open>Sample surroundings\<close>

text \<open>A cluster whose answer depends on the command alone; its parser accepts every
  text, its deployment descriptor lists no mount, and the document can be written.\<close>

definition cluster :: "(command \<Rightarrow> outcome) \<Rightarrow> unit env" where
  "cluster answer =
     \<lparr>exec = (\<lambda>c d w. (answer c, w)), new_Function = (\<lambda>code. None),
      volumeMounts_of = (\<lambda>json. Inr []), write_error = (\<lambda>cm w. None)\<rparr>"

text \<open>A process with no model, no readable file and no command run yet.\<close>

definition initial :: "unit server" where
  "initial = \<lparr>currentModels = [], disk = None, world = (), trace = []\<rparr>"

text \<open>Every command succeeds, and the deployment mounts no model file.\<close>

fun healthy :: "command \<Rightarrow> outcome" where
  "healthy KubectlApply = Inr ''configmap/cube-models configured''"
| "healthy RolloutRestart = Inr ''deployment.apps/cube restarted''"
| "healthy GetDeploymentYaml = Inr ''volumeMounts: []''"
| "healthy GetDeploymentJson = Inr ''{}''"
| "healthy (PatchAddMount n) = Inr ''deployment.apps/cube patched''"
| "healthy (PatchRemoveMount i) = Inr ''deployment.apps/cube patched''"
| "healthy RolloutStatus = Inr ''deployment rolled out''"

text \<open>Every command succeeds, and the deployment mounts \<^verbatim>\<open>Customers.js\<close>, as the
  deployment manifest of the repository's documentation does.\<close>

definition customers_mounted :: "command \<Rightarrow> outcome" where
  "customers_mounted c =
     (if c = GetDeploymentYaml then Inr ''mountPath: /cube/conf/model/Customers.js''
      else healthy c)"

text \<open>The query of the deployment fails; every other command succeeds.\<close>

definition query_fails :: "command \<Rightarrow> outcome" where
  "query_fails c = (if c = GetDeploymentYaml then Inl ''connection refused'' else healthy c)"

text \<open>The rollout does not finish in time; every other command succeeds.\<close>

definition rollout_times_out :: "command \<Rightarrow> outcome" where
  "rollout_times_out c =
     (if c = RolloutStatus then Inl ''timed out waiting for the condition'' else healthy c)"

text \<open>The query of the deployment fails and the rollout does not finish in time; every
  other command succeeds.\<close>

definition query_and_rollout_fail :: "command \<Rightarrow> outcome" where
  "query_and_rollout_fail c =
     (if c = GetDeploymentYaml then Inl ''connection refused'' else rollout_times_out c)"

text \<open>A healthy cluster, but the directory of the document is missing: the write
  throws.\<close>

definition missing_directory :: "unit env" where
  "missing_directory =
     (cluster healthy)\<lparr>write_error := (\<lambda>cm w. Some ''ENOENT: no such file or directory'')\<rparr>"

definition Widget_code :: string where
  "Widget_code = ''cube(`Widget`,{sql:`SELECT 1`,dimensions:{},measures:{count:{type:`count`}}})''"

text \<open>A process that tracks two models, with the document that lists them.\<close>

definition two_models :: "unit server" where
  "two_models =
     \<lparr>currentModels = [(''Customers'', ''cube(`Customers`, {sql: `SELECT 1`})''),
                       (''Orders'', ''cube(`Orders`, {sql: `SELECT 2`})'')],
      disk = Some (YConfigMap (build_configMap
               [(''Customers'', ''cube(`Customers`, {sql: `SELECT 1`})''),
                (''Orders'', ''cube(`Orders`, {sql: `SELECT 2`})'')])),
      world = (), trace = []\<rparr>"

text \<open>A process that tracks \<^verbatim>\<open>Customers\<close> and \<^verbatim>\<open>Orders\<close>, after another process
  has removed \<^verbatim>\<open>Customers.js\<close> from the document.\<close>

definition edited_outside :: "unit server" where
  "edited_outside =
     \<lparr>currentModels = [(''Customers'', ''cube(`Customers`, {sql: `SELECT 1`})''),
                       (''Orders'', ''cube(`Orders`, {sql: `SELECT 2`})'')],
      disk = Some (YConfigMap (build_configMap
               [(''Orders'', ''cube(`Orders`, {sql: `SELECT 2`})'')])),
      world = (), trace = []\<rparr>"

text \<open>A process that tracks two models whose names contain \<^verbatim>\<open>.js\<close>.\<close>

definition dotted_names :: "unit server" where
  "dotted_names =
     \<lparr>currentModels = [(''Orderson.js'', ''cube(`A`, {sql: `SELECT 1`})''),
                       (''Orders.json'', ''cube(`B`, {sql: `SELECT 2`})'')],
      disk = Some (YConfigMap (build_configMap
               [(''Orderson.js'', ''cube(`A`, {sql: `SELECT 1`})''),
                (''Orders.json'', ''cube(`B`, {sql: `SELECT 2`})'')])),
      world = (), trace = []\<rparr>"

text \<open>The text a document holds for a model name, under the key \<^verbatim>\<open><name>.js\<close> of its
  data section.\<close>

definition document_text :: "yamlDoc option \<Rightarrow> string \<Rightarrow> string option" where
  "document_text d name =
     (case d of
        None \<Rightarrow> None
      | Some YNull \<Rightarrow> None
      | Some (YConfigMap cm) \<Rightarrow>
          (case data cm of None \<Rightarrow> None | Some entries \<Rightarrow> map_of entries (name @ ''.js'')))"

text \<open>The keys of the data section, and the invariant of the specification: the section
  exists and holds one key \<^verbatim>\<open><name>.js\<close> for each tracked name, in the same order,
  none twice, as many as there are tracked names.\<close>

definition data_keys :: "'w server \<Rightarrow> string list" where
  "data_keys s = (case data_section s of None \<Rightarrow> [] | Some d \<Rightarrow> map fst d)"

definition document_in_sync :: "'w server \<Rightarrow> bool" where
  "document_in_sync s \<longleftrightarrow>
     data_section s \<noteq> None \<and>
     data_keys s = map (\<lambda>name. name @ ''.js'') (map fst (currentModels s)) \<and>
     distinct (data_keys s) \<and>
     length (data_keys s) = length (currentModels s)"

section \<open>Properties\<close>

subsection \<open>Strings\<close>

lemma no_straddle:
  "\<not> prefix ''.js'' (c # cs) \<Longrightarrow> \<not> prefix ''.js'' ((c # cs) @ ''.js'')"
proof (cases cs)
  case Nil
  then show ?thesis by simp
next
  case (Cons a as)
  note outer = Cons
  assume np: "\<not> prefix ''.js'' (c # cs)"
  show ?thesis
  proof (cases as)
    case Nil
    with outer show ?thesis by simp
  next
    case (Cons b bs)
    with outer np show ?thesis by simp
  qed
qed

lemma replace_suffix:
  "\<not> str_includes s ''.js'' \<Longrightarrow> str_replace (s @ ''.js'') ''.js'' [] = s"
proof (induction s)
  case Nil
  then show ?case by simp
next
  case (Cons c cs)
  from Cons.prems have np: "\<not> prefix ''.js'' (c # cs)" and ni: "\<not> str_includes cs ''.js''"
    by simp_all
  from no_straddle [OF np] have "\<not> prefix ''.js'' (c # (cs @ ''.js''))" by simp
  then have "str_replace (c # (cs @ ''.js'')) ''.js'' [] = c # str_replace (cs @ ''.js'') ''.js'' []"
    by (simp only: str_replace.simps if_False)
  with Cons.IH [OF ni] show ?case by simp
qed

lemma includes_length: "str_includes s pat \<Longrightarrow> length pat \<le> length s"
  by (induction s) (auto dest: prefix_length_le)

lemma prefix_of_longer:
  "length pat \<le> length k \<Longrightarrow> prefix pat (k @ t) \<longleftrightarrow> prefix pat k"
  by (auto simp: prefix_append)

lemma replace_append:
  "pat \<noteq> [] \<Longrightarrow> str_includes k pat \<Longrightarrow>
   str_replace (k @ t) pat rep = str_replace k pat rep @ t"
proof (induction k)
  case Nil
  then show ?case by simp
next
  case (Cons c cs)
  from Cons.prems(2) have len: "length pat \<le> length (c # cs)" by (rule includes_length)
  show ?case
  proof (cases "prefix pat (c # cs)")
    case True
    from len have dr: "drop (length pat) (c # (cs @ t)) = drop (length pat) (c # cs) @ t"
      using drop_append [of "length pat" "c # cs" t] by simp
    from True len have "prefix pat (c # (cs @ t))"
      using prefix_of_longer [of pat "c # cs" t] by simp
    with True dr show ?thesis by simp
  next
    case False
    with Cons.prems have inc: "str_includes cs pat" by simp
    note ih = Cons.IH [OF Cons.prems(1) inc]
    from False len have "\<not> prefix pat (c # (cs @ t))"
      using prefix_of_longer [of pat "c # cs" t] by simp
    with False ih show ?thesis by simp
  qed
qed

lemma includes_append_right: "str_includes t pat \<Longrightarrow> str_includes (s @ t) pat"
  by (induction s) auto

lemma replace_key_cases:
  "str_replace (k @ ''.js'') ''.js'' [] = k \<or>
   str_includes (str_replace (k @ ''.js'') ''.js'' []) ''.js''"
proof (cases "str_includes k ''.js''")
  case False
  then show ?thesis by (simp add: replace_suffix)
next
  case True
  then have "str_replace (k @ ''.js'') ''.js'' [] = str_replace k ''.js'' [] @ ''.js''"
    by (simp add: replace_append)
  moreover have "str_includes (str_replace k ''.js'' [] @ ''.js'') ''.js''"
    by (rule includes_append_right) simp
  ultimately show ?thesis by simp
qed

lemma replace_key_inverse:
  "\<not> str_includes n ''.js'' \<Longrightarrow> str_replace (k @ ''.js'') ''.js'' [] = n \<longleftrightarrow> k = n"
  using replace_key_cases [of k] replace_suffix [of n] by auto

subsection \<open>Runs of the commands\<close>

lemma runs_to_executeCommand:
  "executeCommand en c s = (a, s') \<Longrightarrow> runs_to s [(c, a)] s'"
  by (auto simp: executeCommand_def runs_to_def split: prod.splits)

lemma runs_to_trans: "runs_to s xs s' \<Longrightarrow> runs_to s' ys s'' \<Longrightarrow> runs_to s (xs @ ys) s''"
  by (simp add: runs_to_def)

lemma runs_to_check:
  assumes "checkIfModelMountExists en n s = (b, s')"
  shows "\<exists>q. runs_to s [(GetDeploymentYaml, q)] s' \<and> b = mount_reported n q"
proof -
  obtain q t where x: "executeCommand en GetDeploymentYaml s = (q, t)"
    by (cases "executeCommand en GetDeploymentYaml s")
  with assms have "s' = t" and "b = mount_reported n q"
    by (auto simp: checkIfModelMountExists_def mount_reported_def split: sum.splits)
  with runs_to_executeCommand [OF x] show ?thesis by blast
qed

lemma runs_to_io: "runs_to s evs s' \<Longrightarrow> io (new_events s s') = evs"
  by (simp add: runs_to_def io_def new_events_def comp_def case_prod_unfold)

lemma runs_to_snapshots:
  "runs_to s evs s' \<Longrightarrow>
   list_all (\<lambda>e. models_at e = currentModels s' \<and> disk_at e = disk s') (new_events s s')"
  by (simp add: runs_to_def new_events_def list_all_iff case_prod_unfold)

lemma deploy_steps_run:
  assumes "deploy_steps en n s = (res, s')"
  shows "\<exists>evs. runs_to s evs s' \<and> deploy_run n evs res"
proof -
  obtain a1 s1 where x1: "executeCommand en KubectlApply s = (a1, s1)"
    by (cases "executeCommand en KubectlApply s")
  note r1 = runs_to_executeCommand [OF x1]
  show ?thesis
  proof (cases a1)
    case (Inl e)
    with assms x1 have "res = Inl e" "s' = s1"
      by (simp_all add: deploy_steps_def bind_def)
    with r1 Inl show ?thesis by (blast intro: deploy_run.intros)
  next
    case o1: (Inr o1)
    obtain a2 s2 where x2: "executeCommand en RolloutRestart s1 = (a2, s2)"
      by (cases "executeCommand en RolloutRestart s1")
    note r2 = runs_to_trans [OF r1 runs_to_executeCommand [OF x2]]
    show ?thesis
    proof (cases a2)
      case (Inl e)
      with assms x1 x2 o1 have "res = Inl e" "s' = s2"
        by (simp_all add: deploy_steps_def bind_def)
      with r2 Inl o1 show ?thesis by (auto intro: deploy_run.intros)
    next
      case o2: (Inr o2)
      obtain b s3 where x3: "checkIfModelMountExists en n s2 = (b, s3)"
        by (cases "checkIfModelMountExists en n s2")
      from runs_to_check [OF x3] obtain q where
        rq: "runs_to s2 [(GetDeploymentYaml, q)] s3" and b: "b = mount_reported n q" by blast
      note r3 = runs_to_trans [OF r2 rq]
      show ?thesis
      proof (cases b)
        case True
        obtain a4 s4 where x4: "executeCommand en RolloutStatus s3 = (a4, s4)"
          by (cases "executeCommand en RolloutStatus s3")
        note r4 = runs_to_trans [OF r3 runs_to_executeCommand [OF x4]]
        from assms x1 x2 x3 x4 o1 o2 True
        have "(res, s') = (case a4 of Inl e \<Rightarrow> (Inl e, s4)
                | Inr o4 \<Rightarrow> (Inr [(''apply'', o1), (''restart'', o2), (''status'', o4)], s4))"
          by (simp add: deploy_steps_def bind_def ret_def split: sum.splits)
        with r4 o1 o2 True b show ?thesis
          by (cases a4) (auto intro: deploy_run.intros)
      next
        case False
        obtain a5 s5 where x5: "executeCommand en (PatchAddMount n) s3 = (a5, s5)"
          by (cases "executeCommand en (PatchAddMount n) s3")
        note r5 = runs_to_trans [OF r3 runs_to_executeCommand [OF x5]]
        show ?thesis
        proof (cases a5)
          case (Inl e)
          with assms x1 x2 x3 x5 o1 o2 False have "res = Inl e" "s' = s5"
            by (simp_all add: deploy_steps_def bind_def)
          with r5 Inl o1 o2 False b show ?thesis by (auto intro: deploy_run.intros)
        next
          case o3: (Inr o3)
          obtain a4 s4 where x4: "executeCommand en RolloutStatus s5 = (a4, s4)"
            by (cases "executeCommand en RolloutStatus s5")
          note r4 = runs_to_trans [OF r5 runs_to_executeCommand [OF x4]]
          from assms x1 x2 x3 x4 x5 o1 o2 o3 False
          have "(res, s') = (case a4 of Inl e \<Rightarrow> (Inl e, s4)
                  | Inr o4 \<Rightarrow>
                      (Inr [(''apply'', o1), (''restart'', o2), (''mount'', o3), (''status'', o4)], s4))"
            by (simp add: deploy_steps_def bind_def ret_def split: sum.splits)
          with r4 o1 o2 o3 False b show ?thesis
            by (cases a4) (auto intro: deploy_run.intros)
        qed
      qed
    qed
  qed
qed

lemma deploy_run_nonempty: "deploy_run n evs res \<Longrightarrow> evs \<noteq> []"
  by (erule deploy_run.cases) simp_all

lemma io_Nil_iff: "io evs = [] \<longleftrightarrow> evs = []"
  by (simp add: io_def)

text \<open>A deploy either fails at the write of the document, with no command run and the file
  as it was, or writes the document and runs the commands in one of the shapes.\<close>

lemma post_api_deploy_outcomes:
  assumes "post_api_deploy en n code s = (r, s')"
  shows "currentModels s' = AList.update n code (currentModels s) \<and>
     ((\<exists>e. r = ServerError e \<and> new_events s s' = [] \<and> disk s' = disk s)
      \<or> (new_events s s' \<noteq> [] \<and>
          (\<exists>res. deploy_run n (io (new_events s s')) res
             \<and> r = (case res of Inl message \<Rightarrow> ServerError message | Inr steps \<Rightarrow> DeployOk steps)
             \<and> disk s' = Some (YConfigMap (build_configMap (currentModels s')))
             \<and> list_all (\<lambda>e. models_at e = currentModels s' \<and> disk_at e = disk s')
                  (new_events s s'))))"
proof -
  let ?cm = "build_configMap (AList.update n code (currentModels s))"
  let ?s1 = "s\<lparr>currentModels := AList.update n code (currentModels s)\<rparr>"
  show ?thesis
  proof (cases "write_error en ?cm (world s)")
    case (Some e)
    with assms have "r = ServerError e" and "s' = ?s1"
      by (auto simp: post_api_deploy_def Let_def bind_def writeConfigMap_def)
    then show ?thesis by (simp add: new_events_def)
  next
    case None
    let ?s2 = "?s1\<lparr>disk := Some (YConfigMap ?cm)\<rparr>"
    obtain res t where x: "deploy_steps en n ?s2 = (res, t)"
      by (cases "deploy_steps en n ?s2")
    with assms None
    have r: "r = (case res of Inl message \<Rightarrow> ServerError message | Inr steps \<Rightarrow> DeployOk steps)"
      and t: "s' = t"
      by (auto simp: post_api_deploy_def Let_def bind_def writeConfigMap_def split: sum.splits)
    from deploy_steps_run [OF x] obtain evs where
      run: "runs_to ?s2 evs t" and shape: "deploy_run n evs res" by blast
    have tr: "trace ?s2 = trace s" by simp
    from run have "io (new_events ?s2 t) = evs" by (rule runs_to_io)
    with tr have evs: "io (new_events s t) = evs" by (simp add: new_events_def)
    with deploy_run_nonempty [OF shape] have ne: "new_events s t \<noteq> []"
      by (auto simp: io_Nil_iff)
    from runs_to_snapshots [OF run] tr
    have snap: "list_all (\<lambda>e. models_at e = currentModels t \<and> disk_at e = disk t) (new_events s t)"
      by (simp add: new_events_def)
    from run have "currentModels t = AList.update n code (currentModels s)"
      and "disk t = Some (YConfigMap (build_configMap (AList.update n code (currentModels s))))"
      by (simp_all add: runs_to_def)
    with evs ne snap r t shape show ?thesis by auto
  qed
qed

lemma post_api_deploy_write_throws:
  assumes "write_error en (build_configMap (AList.update n code (currentModels s))) (world s) = Some e"
  shows "post_api_deploy en n code s =
     (ServerError e, s\<lparr>currentModels := AList.update n code (currentModels s)\<rparr>)"
  using assms by (simp add: post_api_deploy_def Let_def bind_def writeConfigMap_def)

lemma post_api_deploy_models:
  "post_api_deploy en n code s = (r, s') \<Longrightarrow>
   currentModels s' = AList.update n code (currentModels s)"
  using post_api_deploy_outcomes by blast

lemma post_api_deploy_unwritten:
  "post_api_deploy en n code s = (r, s') \<Longrightarrow> new_events s s' = [] \<Longrightarrow>
   \<exists>e. r = ServerError e \<and> disk s' = disk s"
  using post_api_deploy_outcomes by blast

lemma post_api_deploy_run:
  assumes "post_api_deploy en n code s = (r, s')" and "new_events s s' \<noteq> []"
  shows "\<exists>res. deploy_run n (io (new_events s s')) res
           \<and> r = (case res of Inl message \<Rightarrow> ServerError message | Inr steps \<Rightarrow> DeployOk steps)
           \<and> currentModels s' = AList.update n code (currentModels s)
           \<and> disk s' = Some (YConfigMap (build_configMap (currentModels s')))
           \<and> list_all (\<lambda>e. models_at e = currentModels s' \<and> disk_at e = disk s') (new_events s s')"
  using post_api_deploy_outcomes [OF assms(1)] assms(2) by blast

lemma ran_if_member: "x \<in> set (io (new_events s s')) \<Longrightarrow> new_events s s' \<noteq> []"
  by (auto simp: io_def)

lemma restart_step:
  assumes "executeCommand en RolloutRestart s = (x, s')"
  shows "bind (executeCommand en RolloutRestart) (\<lambda>out2. ret ()) s = (restart_result x, s')"
  using assms by (simp add: bind_def ret_def restart_result_def split: sum.splits)

lemma remove_mount_run:
  assumes "remove_mount en n s = (res, s')"
  shows "(\<exists>e. runs_to s [(GetDeploymentJson, Inl e)] s' \<and> res = Inl e)
       \<or> (\<exists>j e. runs_to s [(GetDeploymentJson, Inr j)] s' \<and> volumeMounts_of en j = Inl e \<and> res = Inl e)
       \<or> (\<exists>j ms. runs_to s [(GetDeploymentJson, Inr j)] s' \<and> volumeMounts_of en j = Inr ms
             \<and> findIndex (\<lambda>mount. mount = mountPath n) ms = - 1 \<and> res = Inr ())
       \<or> (\<exists>j ms a. runs_to s [(GetDeploymentJson, Inr j),
                (PatchRemoveMount (findIndex (\<lambda>mount. mount = mountPath n) ms), a)] s'
             \<and> volumeMounts_of en j = Inr ms
             \<and> findIndex (\<lambda>mount. mount = mountPath n) ms \<noteq> - 1
             \<and> res = (case a of Inl e \<Rightarrow> Inl e | Inr out \<Rightarrow> Inr ()))"
proof -
  obtain a1 s1 where x1: "executeCommand en GetDeploymentJson s = (a1, s1)"
    by (cases "executeCommand en GetDeploymentJson s")
  note r1 = runs_to_executeCommand [OF x1]
  show ?thesis
  proof (cases a1)
    case (Inl e)
    with assms x1 have "res = Inl e" "s' = s1"
      by (simp_all add: remove_mount_def bind_def)
    with r1 Inl show ?thesis by blast
  next
    case j: (Inr j)
    show ?thesis
    proof (cases "volumeMounts_of en j")
      case (Inl e)
      with assms x1 j have "res = Inl e" "s' = s1"
        by (simp_all add: remove_mount_def bind_def)
      with r1 j Inl show ?thesis by blast
    next
      case ms: (Inr ms)
      let ?i = "findIndex (\<lambda>mount. mount = mountPath n) ms"
      show ?thesis
      proof (cases "?i = - 1")
        case True
        with assms x1 j ms have "res = Inr ()" "s' = s1"
          by (simp_all add: remove_mount_def bind_def ret_def Let_def)
        with r1 j ms True show ?thesis by blast
      next
        case False
        obtain a2 s2 where x2: "executeCommand en (PatchRemoveMount ?i) s1 = (a2, s2)"
          by (cases "executeCommand en (PatchRemoveMount ?i) s1")
        note r2 = runs_to_trans [OF r1 runs_to_executeCommand [OF x2]]
        from assms x1 x2 j ms False
        have "res = (case a2 of Inl e \<Rightarrow> Inl e | Inr out \<Rightarrow> Inr ())" "s' = s2"
          by (simp_all add: remove_mount_def bind_def ret_def Let_def split: sum.splits)
        with r2 j ms False show ?thesis by (intro disjI2) auto
      qed
    qed
  qed
qed

lemma delete_steps_run:
  assumes "delete_steps en n s = (res, s')"
  shows "\<exists>evs. runs_to s evs s' \<and> delete_run en n evs res"
proof -
  obtain a1 s1 where x1: "executeCommand en KubectlApply s = (a1, s1)"
    by (cases "executeCommand en KubectlApply s")
  note r1 = runs_to_executeCommand [OF x1]
  show ?thesis
  proof (cases a1)
    case (Inl e)
    with assms x1 have "res = Inl e" "s' = s1"
      by (simp_all add: delete_steps_def bind_def)
    with r1 Inl show ?thesis by (blast intro: delete_run.intros)
  next
    case o1: (Inr o1)
    obtain b s2 where x2: "checkIfModelMountExists en n s1 = (b, s2)"
      by (cases "checkIfModelMountExists en n s1")
    from runs_to_check [OF x2] obtain q where
      rq: "runs_to s1 [(GetDeploymentYaml, q)] s2" and b: "b = mount_reported n q" by blast
    note r2 = runs_to_trans [OF r1 rq]
    show ?thesis
    proof (cases b)
      case False
      obtain x s3 where x3: "executeCommand en RolloutRestart s2 = (x, s3)"
        by (cases "executeCommand en RolloutRestart s2")
      note r3 = runs_to_trans [OF r2 runs_to_executeCommand [OF x3]]
      from assms x1 x2 o1 False restart_step [OF x3]
      have "res = restart_result x" "s' = s3"
        by (simp_all add: delete_steps_def bind_def ret_def)
      with r3 o1 False b show ?thesis by (auto intro: delete_run.intros)
    next
      case True
      obtain u s3 where x3: "remove_mount en n s2 = (u, s3)"
        by (cases "remove_mount en n s2")
      from assms x1 x2 o1 True x3
      have rest: "(res, s') = (case u of Inl e \<Rightarrow> (Inl e, s3)
                     | Inr v \<Rightarrow> bind (executeCommand en RolloutRestart) (\<lambda>out2. ret ()) s3)"
        by (simp add: delete_steps_def bind_def split: sum.splits)
      obtain x s4 where x4: "executeCommand en RolloutRestart s3 = (x, s4)"
        by (cases "executeCommand en RolloutRestart s3")
      note rr = runs_to_executeCommand [OF x4]
      from remove_mount_run [OF x3] show ?thesis
      proof (elim disjE exE conjE)
        fix e assume "runs_to s2 [(GetDeploymentJson, Inl e)] s3" "u = Inl e"
        with rest runs_to_trans [OF r2] o1 True b show ?thesis
          by (auto intro: delete_run.intros)
      next
        fix j e assume "runs_to s2 [(GetDeploymentJson, Inr j)] s3" "volumeMounts_of en j = Inl e" "u = Inl e"
        with rest runs_to_trans [OF r2] o1 True b show ?thesis
          by (auto intro: delete_run.intros)
      next
        fix j ms assume a: "runs_to s2 [(GetDeploymentJson, Inr j)] s3" "volumeMounts_of en j = Inr ms"
          "findIndex (\<lambda>mount. mount = mountPath n) ms = - 1" "u = Inr ()"
        from rest a(4) restart_step [OF x4] have "res = restart_result x" "s' = s4" by simp_all
        with runs_to_trans [OF runs_to_trans [OF r2 a(1)] rr] a o1 True b show ?thesis
          by (auto intro: delete_run.intros)
      next
        fix j ms a assume a: "runs_to s2 [(GetDeploymentJson, Inr j),
                (PatchRemoveMount (findIndex (\<lambda>mount. mount = mountPath n) ms), a)] s3"
          "volumeMounts_of en j = Inr ms"
          "findIndex (\<lambda>mount. mount = mountPath n) ms \<noteq> - 1"
          "u = (case a of Inl e \<Rightarrow> Inl e | Inr out \<Rightarrow> Inr ())"
        show ?thesis
        proof (cases a)
          case (Inl e)
          with rest a(4) have "res = Inl e" "s' = s3" by simp_all
          with runs_to_trans [OF r2 a(1)] a Inl o1 True b show ?thesis
            by (auto intro: delete_run.intros)
        next
          case (Inr o3)
          with rest a(4) restart_step [OF x4] have "res = restart_result x" "s' = s4" by simp_all
          with runs_to_trans [OF runs_to_trans [OF r2 a(1)] rr] a Inr o1 True b show ?thesis
            by (auto intro: delete_run.intros)
        qed
      qed
    qed
  qed
qed

lemma delete_run_nonempty: "delete_run en n evs res \<Longrightarrow> evs \<noteq> []"
  by (erule delete_run.cases) simp_all

lemma delete_api_model_outcomes:
  assumes "delete_api_model en n s = (r, s')"
  shows "currentModels s' = AList.delete n (currentModels s) \<and>
     ((\<exists>e. r = ServerError e \<and> new_events s s' = [] \<and> disk s' = disk s)
      \<or> (new_events s s' \<noteq> [] \<and>
          (\<exists>res. delete_run en n (io (new_events s s')) res
             \<and> r = (case res of Inl message \<Rightarrow> ServerError message
                     | Inr u \<Rightarrow> DeleteOk (''Model '' @ n @ '' deleted successfully''))
             \<and> disk s' = Some (YConfigMap (build_configMap (currentModels s'))))))"
proof -
  let ?cm = "build_configMap (AList.delete n (currentModels s))"
  let ?s1 = "s\<lparr>currentModels := AList.delete n (currentModels s)\<rparr>"
  show ?thesis
  proof (cases "write_error en ?cm (world s)")
    case (Some e)
    with assms have "r = ServerError e" and "s' = ?s1"
      by (auto simp: delete_api_model_def Let_def bind_def writeConfigMap_def)
    then show ?thesis by (simp add: new_events_def)
  next
    case None
    let ?s2 = "?s1\<lparr>disk := Some (YConfigMap ?cm)\<rparr>"
    obtain res t where x: "delete_steps en n ?s2 = (res, t)"
      by (cases "delete_steps en n ?s2")
    with assms None
    have r: "r = (case res of Inl message \<Rightarrow> ServerError message
                   | Inr u \<Rightarrow> DeleteOk (''Model '' @ n @ '' deleted successfully''))"
      and t: "s' = t"
      by (auto simp: delete_api_model_def Let_def bind_def writeConfigMap_def split: sum.splits)
    from delete_steps_run [OF x] obtain evs where
      run: "runs_to ?s2 evs t" and shape: "delete_run en n evs res" by blast
    have tr: "trace ?s2 = trace s" by simp
    from run have "io (new_events ?s2 t) = evs" by (rule runs_to_io)
    with tr have evs: "io (new_events s t) = evs" by (simp add: new_events_def)
    with delete_run_nonempty [OF shape] have ne: "new_events s t \<noteq> []"
      by (auto simp: io_Nil_iff)
    from run have "currentModels t = AList.delete n (currentModels s)"
      and "disk t = Some (YConfigMap (build_configMap (AList.delete n (currentModels s))))"
      by (simp_all add: runs_to_def)
    with evs ne r t shape show ?thesis by auto
  qed
qed

lemma delete_api_model_write_throws:
  assumes "write_error en (build_configMap (AList.delete n (currentModels s))) (world s) = Some e"
  shows "delete_api_model en n s =
     (ServerError e, s\<lparr>currentModels := AList.delete n (currentModels s)\<rparr>)"
  using assms by (simp add: delete_api_model_def Let_def bind_def writeConfigMap_def)

lemma delete_api_model_models:
  "delete_api_model en n s = (r, s') \<Longrightarrow>
   currentModels s' = AList.delete n (currentModels s)"
  using delete_api_model_outcomes by blast

lemma delete_api_model_unwritten:
  "delete_api_model en n s = (r, s') \<Longrightarrow> new_events s s' = [] \<Longrightarrow>
   \<exists>e. r = ServerError e \<and> disk s' = disk s"
  using delete_api_model_outcomes by blast

lemma delete_api_model_run:
  assumes "delete_api_model en n s = (r, s')" and "new_events s s' \<noteq> []"
  shows "\<exists>res. delete_run en n (io (new_events s s')) res
           \<and> r = (case res of Inl message \<Rightarrow> ServerError message
                   | Inr u \<Rightarrow> DeleteOk (''Model '' @ n @ '' deleted successfully''))
           \<and> currentModels s' = AList.delete n (currentModels s)
           \<and> disk s' = Some (YConfigMap (build_configMap (currentModels s')))"
  using delete_api_model_outcomes [OF assms(1)] assms(2) by blast

lemma all_succeeded_io:
  "all_succeeded evs \<longleftrightarrow>
   list_all (\<lambda>(c, a). case a of Inl e \<Rightarrow> False | Inr out \<Rightarrow> True) (io evs)"
  by (simp add: all_succeeded_def io_def list_all_iff)

text \<open>Evaluation of the requests on the sample surroundings.\<close>

lemmas request_defs =
  post_api_deploy_def deploy_steps_def delete_api_model_def delete_steps_def remove_mount_def
  bind_def ret_def executeCommand_def checkIfModelMountExists_def writeConfigMap_def
  build_configMap_def models_data_def mountPath_def cluster_def missing_directory_def initial_def
  new_events_def io_def all_succeeded_def

subsection \<open>The data section\<close>

lemma update_fresh: "k \<notin> fst ` set al \<Longrightarrow> AList.update k v al = al @ [(k, v)]"
  by (induction al) auto

lemma fold_update_fresh:
  assumes "inj f"
  shows "distinct (map fst m) \<Longrightarrow> f ` fst ` set m \<inter> fst ` set acc = {} \<Longrightarrow>
         fold (\<lambda>(name, text) d. AList.update (f name) text d) m acc =
         acc @ map (\<lambda>(name, text). (f name, text)) m"
proof (induction m arbitrary: acc)
  case Nil
  then show ?case by simp
next
  case (Cons p m)
  obtain k v where p: "p = (k, v)" by (cases p)
  from Cons.prems p have fresh: "f k \<notin> fst ` set acc" by auto
  from Cons.prems p have d: "distinct (map fst m)" and kn: "k \<notin> fst ` set m" by auto
  from assms kn have "f k \<notin> f ` fst ` set m" by (auto dest: injD)
  with Cons.prems p have disj: "f ` fst ` set m \<inter> fst ` set (acc @ [(f k, v)]) = {}" by auto
  from Cons.IH [OF d disj] p fresh show ?case by (simp add: update_fresh)
qed

lemma models_data_distinct:
  "distinct (map fst m) \<Longrightarrow> models_data m = map (\<lambda>(name, text). (name @ ''.js'', text)) m"
  unfolding models_data_def
  by (rule fold_update_fresh [where acc = "[]", simplified]) (simp_all add: inj_on_def)

lemma map_of_suffixed:
  "map_of (map (\<lambda>(name, text). (name @ ''.js'', text)) m) (n @ ''.js'') = map_of m n"
  by (induction m) auto

lemma distinct_suffixed:
  "distinct (map fst m) \<Longrightarrow> distinct (map (\<lambda>name. name @ ''.js'') (map fst m))"
  by (simp add: distinct_map inj_on_def)

lemma models_data_keys:
  "distinct (map fst m) \<Longrightarrow> map fst (models_data m) = map (\<lambda>name. name @ ''.js'') (map fst m)"
  by (simp add: models_data_distinct comp_def case_prod_unfold)

lemma in_sync_after_write:
  assumes "distinct (map fst (currentModels s))"
    and "disk s = Some (YConfigMap (build_configMap (currentModels s)))"
  shows "document_in_sync s"
proof -
  from assms(2) have "data_section s = Some (models_data (currentModels s))"
    by (simp add: data_section_def build_configMap_def)
  then have "data_section s \<noteq> None" and "data_keys s = map fst (models_data (currentModels s))"
    by (simp_all add: data_keys_def)
  with assms(1) models_data_keys [OF assms(1)] distinct_suffixed [OF assms(1)]
  show ?thesis
    by (simp add: document_in_sync_def)
qed

lemmas load_defs = get_api_models_def loadExistingModels_def start_server_def get_api_model_def
  data_section_def Let_def

subsection \<open>Loading the document\<close>

lemma loaded_models:
  assumes "disk s = Some (YConfigMap (build_configMap D))" and "distinct (map fst D)"
  shows "currentModels (snd (loadExistingModels s)) =
     fold (\<lambda>(key, text) m. AList.update (str_replace key ''.js'' []) text m)
       (map (\<lambda>(name, text). (name @ ''.js'', text)) D) (currentModels s)"
proof -
  have "data (build_configMap D) = Some (models_data D)"
    by (simp add: build_configMap_def)
  with assms(1) have "currentModels (snd (loadExistingModels s)) =
     fold (\<lambda>(key, text) m. AList.update (str_replace key ''.js'' []) text m)
       (models_data D) (currentModels s)"
    by (simp add: loadExistingModels_def Let_def)
  with models_data_distinct [OF assms(2)] show ?thesis by simp
qed


lemma fold_lookup:
  assumes "\<And>k. f (g k) = n \<longleftrightarrow> k = n"
  shows "distinct (map fst D) \<Longrightarrow>
     map_of (fold (\<lambda>(key, text) m. AList.update (f key) text m)
               (map (\<lambda>(name, text). (g name, text)) D) m) n =
     (case map_of D n of Some t \<Rightarrow> Some t | None \<Rightarrow> map_of m n)"
proof (induction D arbitrary: m)
  case Nil
  then show ?case by simp
next
  case (Cons p D)
  obtain k v where p: "p = (k, v)" by (cases p)
  from Cons.prems p have d: "distinct (map fst D)" and fresh: "k \<notin> fst ` set D" by auto
  from fresh have none: "k = n \<Longrightarrow> map_of D n = None"
    by (simp add: map_of_eq_None_iff)
  from Cons.IH [OF d, of "AList.update (f (g k)) v m"] p assms [of k] none
  show ?case by (auto simp: update_conv' split: option.splits)
qed

lemma loaded_lookup:
  assumes "disk s = Some (YConfigMap (build_configMap D))" and "distinct (map fst D)"
    and "\<not> str_includes n ''.js''"
  shows "map_of (currentModels (snd (loadExistingModels s))) n =
     (case map_of D n of Some t \<Rightarrow> Some t | None \<Rightarrow> map_of (currentModels s) n)"
proof -
  have inv: "str_replace (k @ ''.js'') ''.js'' [] = n \<longleftrightarrow> k = n" for k
    using assms(3) by (rule replace_key_inverse)
  note look = fold_lookup [of "\<lambda>key. str_replace key ''.js'' []" "\<lambda>name. name @ ''.js''" n D
      "currentModels s", OF inv assms(2)]
  show ?thesis
    unfolding loaded_models [OF assms(1,2)] by (rule look)
qed

text \<open>The keys of \<^verbatim>\<open>currentModels\<close> stay distinct under a load, and are so at the start
  of the process.\<close>

lemma distinct_fold_update:
  "distinct (map fst m) \<Longrightarrow>
   distinct (map fst (fold (\<lambda>(key, text) m. AList.update (f key) text m) d m))"
proof (induction d arbitrary: m)
  case Nil
  then show ?case by simp
next
  case (Cons p d)
  obtain k v where p: "p = (k, v)" by (cases p)
  from Cons.prems have "distinct (map fst (AList.update (f k) v m))"
    by (simp add: distinct_update)
  from Cons.IH [OF this] p show ?case by simp
qed

lemma distinct_loadExistingModels:
  "distinct (map fst (currentModels s)) \<Longrightarrow>
   distinct (map fst (currentModels (snd (loadExistingModels s))))"
  by (simp add: loadExistingModels_def Let_def distinct_fold_update
      split: option.splits yamlDoc.splits)

lemma distinct_start_server: "distinct (map fst (currentModels (start_server s)))"
  unfolding start_server_def by (rule distinct_loadExistingModels) simp

text \<open>The sample processes are states the server reaches by deploys from the empty one
  (up to the commands it has run and, for \<open>edited_outside\<close>, up to the edit of the
  document by another process).\<close>

lemma two_models_reached:
  "currentModels (snd (post_api_deploy (cluster healthy) ''Orders''
       ''cube(`Orders`, {sql: `SELECT 2`})''
       (snd (post_api_deploy (cluster healthy) ''Customers''
          ''cube(`Customers`, {sql: `SELECT 1`})'' initial)))) = currentModels two_models
   \<and> disk (snd (post_api_deploy (cluster healthy) ''Orders''
       ''cube(`Orders`, {sql: `SELECT 2`})''
       (snd (post_api_deploy (cluster healthy) ''Customers''
          ''cube(`Customers`, {sql: `SELECT 1`})'' initial)))) = disk two_models
   \<and> currentModels edited_outside = currentModels two_models"
  by (simp add: request_defs two_models_def edited_outside_def)

lemma dotted_names_reached:
  "currentModels (snd (post_api_deploy (cluster healthy) ''Orders.json''
       ''cube(`B`, {sql: `SELECT 2`})''
       (snd (post_api_deploy (cluster healthy) ''Orderson.js''
          ''cube(`A`, {sql: `SELECT 1`})'' initial)))) = currentModels dotted_names
   \<and> disk (snd (post_api_deploy (cluster healthy) ''Orders.json''
       ''cube(`B`, {sql: `SELECT 2`})''
       (snd (post_api_deploy (cluster healthy) ''Orderson.js''
          ''cube(`A`, {sql: `SELECT 1`})'' initial)))) = disk dotted_names"
  by (simp add: request_defs dotted_names_def)

subsection \<open>The steps of a deploy\<close>

text \<open>
  C1 (as amended). For every deploy that invokes a command (the write of the document did
  not throw) and in which all invoked commands succeed, the response is the success
  response, and the labels of its steps are apply, restart, status in that
  order, with mount between restart and status exactly when the output of the
  mount-existence query does not contain the model's mount path. So the list is
  apply, restart, mount, status when the query reports the path as not registered (whatever
  the ModelSet holds, the empty one included), and apply, restart, status when the query
  reports it as registered. The commands run in the order of the labels, with the one
  query after the restart.
\<close>

theorem deploy_steps_list:
  assumes "post_api_deploy en n code s = (r, s')"
    and "new_events s s' \<noteq> []"
    and "all_succeeded (new_events s s')"
  shows "\<exists>y steps. (GetDeploymentYaml, Inr y) \<in> set (io (new_events s s'))
           \<and> r = DeployOk steps
           \<and> map fst steps =
               (if str_includes y (mountPath n) then [''apply'', ''restart'', ''status'']
                else [''apply'', ''restart'', ''mount'', ''status''])
           \<and> map fst (io (new_events s s')) =
               (if str_includes y (mountPath n)
                then [KubectlApply, RolloutRestart, GetDeploymentYaml, RolloutStatus]
                else [KubectlApply, RolloutRestart, GetDeploymentYaml, PatchAddMount n,
                      RolloutStatus])"
proof -
  from post_api_deploy_run [OF assms(1,2)] obtain res where
    shape: "deploy_run n (io (new_events s s')) res"
    and r: "r = (case res of Inl message \<Rightarrow> ServerError message | Inr steps \<Rightarrow> DeployOk steps)"
    by blast
  from assms(3)
  have ok: "list_all (\<lambda>(c, a). case a of Inl e \<Rightarrow> False | Inr out \<Rightarrow> True) (io (new_events s s'))"
    by (simp add: all_succeeded_io)
  from shape ok r show ?thesis
    by cases (auto simp: mount_reported_def split: sum.splits)
qed

text \<open>
  C1, witness: the scenario of the specification. \<^verbatim>\<open>Widget\<close> is deployed on the empty
  ModelSet to a cluster that mounts no model file; every command succeeds and the steps
  are apply, restart, mount, status.
\<close>

theorem deploy_steps_list_witness:
  "post_api_deploy (cluster healthy) ''Widget'' Widget_code initial =
     (DeployOk [(''apply'', ''configmap/cube-models configured''),
        (''restart'', ''deployment.apps/cube restarted''),
        (''mount'', ''deployment.apps/cube patched''),
        (''status'', ''deployment rolled out'')],
      snd (post_api_deploy (cluster healthy) ''Widget'' Widget_code initial))
   \<and> new_events initial (snd (post_api_deploy (cluster healthy) ''Widget'' Widget_code initial))
       \<noteq> []
   \<and> all_succeeded
        (new_events initial (snd (post_api_deploy (cluster healthy) ''Widget'' Widget_code initial)))
   \<and> (\<exists>y steps.
         (GetDeploymentYaml, Inr y) \<in> set (io (new_events initial
            (snd (post_api_deploy (cluster healthy) ''Widget'' Widget_code initial))))
         \<and> DeployOk [(''apply'', ''configmap/cube-models configured''),
              (''restart'', ''deployment.apps/cube restarted''),
              (''mount'', ''deployment.apps/cube patched''),
              (''status'', ''deployment rolled out'')] = DeployOk steps
         \<and> map fst steps =
             (if str_includes y (mountPath ''Widget'') then [''apply'', ''restart'', ''status'']
              else [''apply'', ''restart'', ''mount'', ''status''])
         \<and> map fst (io (new_events initial
              (snd (post_api_deploy (cluster healthy) ''Widget'' Widget_code initial)))) =
             (if str_includes y (mountPath ''Widget'')
              then [KubectlApply, RolloutRestart, GetDeploymentYaml, RolloutStatus]
              else [KubectlApply, RolloutRestart, GetDeploymentYaml, PatchAddMount ''Widget'',
                    RolloutStatus]))"
proof -
  let ?run = "post_api_deploy (cluster healthy) ''Widget'' Widget_code initial"
  have h1: "?run = (DeployOk [(''apply'', ''configmap/cube-models configured''),
        (''restart'', ''deployment.apps/cube restarted''),
        (''mount'', ''deployment.apps/cube patched''),
        (''status'', ''deployment rolled out'')], snd ?run)"
    by (simp add: request_defs)
  have h2: "new_events initial (snd ?run) \<noteq> []"
    by (simp add: request_defs)
  have h3: "all_succeeded (new_events initial (snd ?run))"
    by (simp add: request_defs)
  from h1 h2 h3 deploy_steps_list [OF h1 h2 h3] show ?thesis by blast
qed

text \<open>
  C1, counterexample to the claim as stated. First (``on an empty ModelSet the list is
  exactly apply, restart, mount, status''): the ModelSet is empty, the deployment already
  mounts \<^verbatim>\<open>Customers.js\<close>, every command succeeds, and the deploy of \<^verbatim>\<open>Customers\<close> has
  no mount step. Second (``for every deploy in which all invoked commands succeed''): the
  directory of the document is missing, the write throws, no command is invoked, so none
  fails, and the response is the 500 response, with no steps list.
\<close>

theorem deploy_on_empty_counterexample:
  "currentModels initial = []
   \<and> all_succeeded (new_events initial
        (snd (post_api_deploy (cluster customers_mounted) ''Customers''
               ''cube(`Customers`, {sql: `SELECT 1`})'' initial)))
   \<and> fst (post_api_deploy (cluster customers_mounted) ''Customers''
            ''cube(`Customers`, {sql: `SELECT 1`})'' initial) =
       DeployOk [(''apply'', ''configmap/cube-models configured''),
         (''restart'', ''deployment.apps/cube restarted''),
         (''status'', ''deployment rolled out'')]
   \<and> new_events initial
        (snd (post_api_deploy missing_directory ''Widget'' Widget_code initial)) = []
   \<and> all_succeeded (new_events initial
        (snd (post_api_deploy missing_directory ''Widget'' Widget_code initial)))
   \<and> fst (post_api_deploy missing_directory ''Widget'' Widget_code initial) =
       ServerError ''ENOENT: no such file or directory''"
  by (simp add: request_defs customers_mounted_def)

subsection \<open>What a deploy commits, and when\<close>

text \<open>
  C2 (as amended). For every deploy of a name other than \<^verbatim>\<open>__proto__\<close> (for which the
  assignment \<^verbatim>\<open>currentModels[modelName] = code\<close> stores nothing), the entry of the name in
  \<^verbatim>\<open>currentModels\<close> holds the new text when the request ends, and both that entry and the
  document on disk hold the new text when the first command starts and at every later
  command: the object and the file are then what they still are when the request ends
  (nothing is rolled back). If a command other than the mount-existence query fails, the
  response is the 500 response with that command's error, the failed command is the last
  one that ran, and the object and the document still hold the new text. If the
  mount-existence query fails, its error is not surfaced and the later steps still run:
  the patch that adds the mount is the next command, and the response is the success
  response with the steps apply, restart, mount, status, or the 500 response with the error
  of the patch or of the rollout wait.
\<close>

theorem deploy_commits_first:
  assumes "distinct (map fst (currentModels s))"
    and "n \<noteq> ''__proto__''"
    and "post_api_deploy en n code s = (r, s')"
  shows "map_of (currentModels s') n = Some code
       \<and> list_all (\<lambda>e. map_of (models_at e) n = Some code
                        \<and> document_text (disk_at e) n = Some code
                        \<and> models_at e = currentModels s' \<and> disk_at e = disk s')
            (new_events s s')
       \<and> (\<forall>c msg. (c, Inl msg) \<in> set (io (new_events s s')) \<and> c \<noteq> GetDeploymentYaml \<longrightarrow>
             r = ServerError msg \<and> last (io (new_events s s')) = (c, Inl msg)
             \<and> document_text (disk s') n = Some code)
       \<and> (\<forall>msg. (GetDeploymentYaml, Inl msg) \<in> set (io (new_events s s')) \<longrightarrow>
             (\<exists>o1 o2 a rest.
                io (new_events s s') =
                  [(KubectlApply, Inr o1), (RolloutRestart, Inr o2), (GetDeploymentYaml, Inl msg),
                   (PatchAddMount n, a)] @ rest
                \<and> ((\<exists>o3 o4. a = Inr o3 \<and> rest = [(RolloutStatus, Inr o4)]
                       \<and> r = DeployOk [(''apply'', o1), (''restart'', o2), (''mount'', o3),
                                        (''status'', o4)])
                   \<or> (\<exists>e. a = Inl e \<and> rest = [] \<and> r = ServerError e)
                   \<or> (\<exists>o3 e. a = Inr o3 \<and> rest = [(RolloutStatus, Inl e)]
                         \<and> r = ServerError e))))"
proof -
  from post_api_deploy_models [OF assms(3)]
  have m: "currentModels s' = AList.update n code (currentModels s)" .
  then have entry: "map_of (currentModels s') n = Some code"
    by (simp add: update_conv')
  from assms(1) m have dist: "distinct (map fst (currentModels s'))"
    by (simp add: distinct_update)
  show ?thesis
  proof (cases "new_events s s' = []")
    case True
    with entry show ?thesis by (simp add: io_def)
  next
    case False
    from post_api_deploy_run [OF assms(3) False] obtain res where
      shape: "deploy_run n (io (new_events s s')) res"
      and r: "r = (case res of Inl message \<Rightarrow> ServerError message | Inr steps \<Rightarrow> DeployOk steps)"
      and d: "disk s' = Some (YConfigMap (build_configMap (currentModels s')))"
      and snap: "list_all (\<lambda>e. models_at e = currentModels s' \<and> disk_at e = disk s')
                   (new_events s s')"
      by blast
    from d have "document_text (disk s') n = map_of (models_data (currentModels s')) (n @ ''.js'')"
      by (simp add: document_text_def build_configMap_def)
    with dist entry have doc: "document_text (disk s') n = Some code"
      by (simp add: models_data_distinct map_of_suffixed)
    from snap entry doc
    have at_commands: "list_all (\<lambda>e. map_of (models_at e) n = Some code
                        \<and> document_text (disk_at e) n = Some code
                        \<and> models_at e = currentModels s' \<and> disk_at e = disk s')
            (new_events s s')"
      by (simp add: list_all_iff)
    from shape r
    have fail: "\<forall>c msg. (c, Inl msg) \<in> set (io (new_events s s')) \<and> c \<noteq> GetDeploymentYaml \<longrightarrow>
             r = ServerError msg \<and> last (io (new_events s s')) = (c, Inl msg)"
      by cases auto
    from shape r
    have query: "\<forall>msg. (GetDeploymentYaml, Inl msg) \<in> set (io (new_events s s')) \<longrightarrow>
             (\<exists>o1 o2 a rest.
                io (new_events s s') =
                  [(KubectlApply, Inr o1), (RolloutRestart, Inr o2), (GetDeploymentYaml, Inl msg),
                   (PatchAddMount n, a)] @ rest
                \<and> ((\<exists>o3 o4. a = Inr o3 \<and> rest = [(RolloutStatus, Inr o4)]
                       \<and> r = DeployOk [(''apply'', o1), (''restart'', o2), (''mount'', o3),
                                        (''status'', o4)])
                   \<or> (\<exists>e. a = Inl e \<and> rest = [] \<and> r = ServerError e)
                   \<or> (\<exists>o3 e. a = Inr o3 \<and> rest = [(RolloutStatus, Inl e)]
                         \<and> r = ServerError e)))"
      by cases (auto simp: mount_reported_def)
    from entry at_commands fail doc query show ?thesis by blast
  qed
qed

text \<open>
  C2, witness: \<^verbatim>\<open>Widget\<close> is deployed to a cluster whose mount-existence query fails and
  whose rollout times out. The patch runs after the failed query, the request fails with
  the error of the rollout command, which is the last command, and the object and the
  document hold the new text.
\<close>

theorem deploy_commits_first_witness:
  "distinct (map fst (currentModels initial))
   \<and> ''Widget'' \<noteq> ''__proto__''
   \<and> post_api_deploy (cluster query_and_rollout_fail) ''Widget'' Widget_code initial =
       (ServerError ''timed out waiting for the condition'',
        snd (post_api_deploy (cluster query_and_rollout_fail) ''Widget'' Widget_code initial))
   \<and> (RolloutStatus, Inl ''timed out waiting for the condition'') \<in> set (io (new_events initial
        (snd (post_api_deploy (cluster query_and_rollout_fail) ''Widget'' Widget_code initial))))
   \<and> RolloutStatus \<noteq> GetDeploymentYaml
   \<and> (GetDeploymentYaml, Inl ''connection refused'') \<in> set (io (new_events initial
        (snd (post_api_deploy (cluster query_and_rollout_fail) ''Widget'' Widget_code initial))))
   \<and> map_of (currentModels
        (snd (post_api_deploy (cluster query_and_rollout_fail) ''Widget'' Widget_code initial)))
        ''Widget'' = Some Widget_code
   \<and> document_text
        (disk (snd (post_api_deploy (cluster query_and_rollout_fail) ''Widget'' Widget_code initial)))
        ''Widget'' = Some Widget_code
   \<and> last (io (new_events initial
        (snd (post_api_deploy (cluster query_and_rollout_fail) ''Widget'' Widget_code initial)))) =
       (RolloutStatus, Inl ''timed out waiting for the condition'')
   \<and> (\<exists>o1 o2 a rest.
         io (new_events initial
           (snd (post_api_deploy (cluster query_and_rollout_fail) ''Widget'' Widget_code initial))) =
           [(KubectlApply, Inr o1), (RolloutRestart, Inr o2),
            (GetDeploymentYaml, Inl ''connection refused''), (PatchAddMount ''Widget'', a)] @ rest)"
proof -
  let ?run = "post_api_deploy (cluster query_and_rollout_fail) ''Widget'' Widget_code initial"
  have h1: "distinct (map fst (currentModels initial))"
    by (simp add: initial_def)
  have h2: "''Widget'' \<noteq> ''__proto__''" by simp
  have h3: "?run = (ServerError ''timed out waiting for the condition'', snd ?run)"
    by (simp add: request_defs query_and_rollout_fail_def rollout_times_out_def)
  have h4: "(RolloutStatus, Inl ''timed out waiting for the condition'')
              \<in> set (io (new_events initial (snd ?run)))"
    by (simp add: request_defs query_and_rollout_fail_def rollout_times_out_def)
  have h5: "RolloutStatus \<noteq> GetDeploymentYaml" by simp
  have h6: "(GetDeploymentYaml, Inl ''connection refused'')
              \<in> set (io (new_events initial (snd ?run)))"
    by (simp add: request_defs query_and_rollout_fail_def rollout_times_out_def)
  note inst = deploy_commits_first [OF h1 h2 h3]
  from inst have c1: "map_of (currentModels (snd ?run)) ''Widget'' = Some Widget_code"
    by blast
  from inst h4 h5
  have c2: "last (io (new_events initial (snd ?run))) =
              (RolloutStatus, Inl ''timed out waiting for the condition'')
            \<and> document_text (disk (snd ?run)) ''Widget'' = Some Widget_code"
    by blast
  from inst h6
  have c3: "\<exists>o1 o2 a rest.
         io (new_events initial (snd ?run)) =
           [(KubectlApply, Inr o1), (RolloutRestart, Inr o2),
            (GetDeploymentYaml, Inl ''connection refused''), (PatchAddMount ''Widget'', a)] @ rest"
    by blast
  from h1 h2 h3 h4 h5 h6 c1 c2 c3 show ?thesis by blast
qed

text \<open>
  C2, counterexample to the claim as stated (``if any external command fails, the failing
  step's error is surfaced and no later step runs''): the mount-existence query fails, the
  patch and the rollout wait run after it, and the response is the success response.
\<close>

theorem deploy_query_failure_counterexample:
  "io (new_events initial
        (snd (post_api_deploy (cluster query_fails) ''Widget'' Widget_code initial))) =
     [(KubectlApply, Inr ''configmap/cube-models configured''),
      (RolloutRestart, Inr ''deployment.apps/cube restarted''),
      (GetDeploymentYaml, Inl ''connection refused''),
      (PatchAddMount ''Widget'', Inr ''deployment.apps/cube patched''),
      (RolloutStatus, Inr ''deployment rolled out'')]
   \<and> fst (post_api_deploy (cluster query_fails) ''Widget'' Widget_code initial) =
       DeployOk [(''apply'', ''configmap/cube-models configured''),
         (''restart'', ''deployment.apps/cube restarted''),
         (''mount'', ''deployment.apps/cube patched''),
         (''status'', ''deployment rolled out'')]"
  by (simp add: request_defs query_fails_def)

subsection \<open>The rollout wait\<close>




subsection \<open>The document after a deploy or a delete\<close>

text \<open>
  C5. After every successful deploy or delete, the data section of the document on disk
  holds exactly one key \<^verbatim>\<open><name>.js\<close> per tracked model name and no other key: the keys
  are the tracked names with \<^verbatim>\<open>.js\<close> appended, none occurs twice, there are as many as
  \<^verbatim>\<open>currentModels\<close> has entries, and after a delete the key of the deleted name is not
  among them. (The keys of \<^verbatim>\<open>currentModels\<close> are distinct, as those of any JavaScript
  object, and stay so.)
\<close>

theorem configmap_matches_models:
  assumes "distinct (map fst (currentModels s))"
  shows "(post_api_deploy en n code s = (DeployOk steps, s') \<longrightarrow>
            document_in_sync s' \<and> distinct (map fst (currentModels s')))
       \<and> (delete_api_model en n s = (DeleteOk message, s2) \<longrightarrow>
            document_in_sync s2 \<and> distinct (map fst (currentModels s2))
            \<and> n \<notin> set (map fst (currentModels s2)) \<and> n @ ''.js'' \<notin> set (data_keys s2))"
proof (intro conjI impI)
  assume a: "post_api_deploy en n code s = (DeployOk steps, s')"
  from post_api_deploy_unwritten [OF a] have ne: "new_events s s' \<noteq> []" by auto
  from post_api_deploy_run [OF a ne]
  have m: "currentModels s' = AList.update n code (currentModels s)"
    and d: "disk s' = Some (YConfigMap (build_configMap (currentModels s')))" by blast+
  from assms m show dist: "distinct (map fst (currentModels s'))"
    by (simp add: distinct_update)
  from dist d show "document_in_sync s'" by (rule in_sync_after_write)
next
  assume a: "delete_api_model en n s = (DeleteOk message, s2)"
  from delete_api_model_unwritten [OF a] have ne: "new_events s s2 \<noteq> []" by auto
  from delete_api_model_run [OF a ne]
  have m: "currentModels s2 = AList.delete n (currentModels s)"
    and d: "disk s2 = Some (YConfigMap (build_configMap (currentModels s2)))" by blast+
  from assms m show dist: "distinct (map fst (currentModels s2))"
    by (simp add: distinct_delete)
  from dist d show sync: "document_in_sync s2" by (rule in_sync_after_write)
  from m show absent: "n \<notin> set (map fst (currentModels s2))"
    by (simp add: delete_keys)
  from sync have "data_keys s2 = map (\<lambda>name. name @ ''.js'') (map fst (currentModels s2))"
    by (simp add: document_in_sync_def)
  with absent show "n @ ''.js'' \<notin> set (data_keys s2)" by auto
qed

text \<open>
  C5, witness: on the process that tracks \<^verbatim>\<open>Customers\<close> and \<^verbatim>\<open>Orders\<close>, a deploy of
  \<^verbatim>\<open>Widget\<close> leaves three keys and a delete of \<^verbatim>\<open>Customers\<close> leaves one.
\<close>

theorem configmap_matches_models_witness:
  "distinct (map fst (currentModels two_models))
   \<and> post_api_deploy (cluster healthy) ''Widget'' Widget_code two_models =
       (DeployOk [(''apply'', ''configmap/cube-models configured''),
          (''restart'', ''deployment.apps/cube restarted''),
          (''mount'', ''deployment.apps/cube patched''),
          (''status'', ''deployment rolled out'')],
        snd (post_api_deploy (cluster healthy) ''Widget'' Widget_code two_models))
   \<and> document_in_sync (snd (post_api_deploy (cluster healthy) ''Widget'' Widget_code two_models))
   \<and> data_keys (snd (post_api_deploy (cluster healthy) ''Widget'' Widget_code two_models)) =
       [''Customers.js'', ''Orders.js'', ''Widget.js'']
   \<and> delete_api_model (cluster healthy) ''Customers'' two_models =
       (DeleteOk ''Model Customers deleted successfully'',
        snd (delete_api_model (cluster healthy) ''Customers'' two_models))
   \<and> document_in_sync (snd (delete_api_model (cluster healthy) ''Customers'' two_models))
   \<and> ''Customers'' @ ''.js'' \<notin> set (data_keys (snd (delete_api_model (cluster healthy) ''Customers'' two_models)))
   \<and> data_keys (snd (delete_api_model (cluster healthy) ''Customers'' two_models)) = [''Orders.js'']"
proof -
  let ?dep = "post_api_deploy (cluster healthy) ''Widget'' Widget_code two_models"
  let ?del = "delete_api_model (cluster healthy) ''Customers'' two_models"
  have h1: "distinct (map fst (currentModels two_models))"
    by (simp add: two_models_def)
  have h2: "?dep = (DeployOk [(''apply'', ''configmap/cube-models configured''),
          (''restart'', ''deployment.apps/cube restarted''),
          (''mount'', ''deployment.apps/cube patched''),
          (''status'', ''deployment rolled out'')], snd ?dep)"
    by (simp add: request_defs two_models_def)
  have h3: "?del = (DeleteOk ''Model Customers deleted successfully'', snd ?del)"
    by (simp add: request_defs two_models_def)
  have k1: "data_keys (snd ?dep) = [''Customers.js'', ''Orders.js'', ''Widget.js'']"
    by (simp add: request_defs two_models_def data_keys_def data_section_def)
  have k2: "data_keys (snd ?del) = [''Orders.js'']"
    by (simp add: request_defs two_models_def data_keys_def data_section_def)
  from configmap_matches_models [OF h1, of "cluster healthy" "''Widget''" Widget_code _ "snd ?dep"] h2
  have c1: "document_in_sync (snd ?dep)" by blast
  from configmap_matches_models [OF h1, of "cluster healthy" "''Customers''" _ _ _ _ "snd ?del"] h3
  have c2: "document_in_sync (snd ?del) \<and> ''Customers'' @ ''.js'' \<notin> set (data_keys (snd ?del))" by blast
  from h1 h2 h3 k1 k2 c1 c2 show ?thesis by blast
qed

subsection \<open>A failed mount-existence query\<close>

text \<open>
  C10. If the command that queries the deployment fails, \<^verbatim>\<open>checkIfModelMountExists\<close>
  answers \<^verbatim>\<open>false\<close> instead of failing. So a deploy whose query fails goes on to the patch
  that adds the mount of the name, and its response is decided by the patch and the rollout
  wait alone: the success response with the steps apply, restart, mount, status, or the 500
  response with the error of the patch or of the rollout wait. A delete whose query fails
  runs neither the second query nor the patch that removes a mount: it goes on to the
  restart, whose outcome alone decides the response. In neither case does the response
  carry the error of the query.
\<close>

theorem mount_query_failure_swallowed:
  "(fst (exec en GetDeploymentYaml (disk s) (world s)) = Inl msg \<longrightarrow>
      fst (checkIfModelMountExists en n s) = False)
   \<and> (post_api_deploy en n code s = (r, s')
        \<and> (GetDeploymentYaml, Inl msg) \<in> set (io (new_events s s')) \<longrightarrow>
      (\<exists>o1 o2 a rest.
         io (new_events s s') =
           [(KubectlApply, Inr o1), (RolloutRestart, Inr o2), (GetDeploymentYaml, Inl msg),
            (PatchAddMount n, a)] @ rest
         \<and> ((\<exists>o3 o4. a = Inr o3 \<and> rest = [(RolloutStatus, Inr o4)]
                \<and> r = DeployOk [(''apply'', o1), (''restart'', o2), (''mount'', o3), (''status'', o4)])
            \<or> (\<exists>e. a = Inl e \<and> rest = [] \<and> r = ServerError e)
            \<or> (\<exists>o3 e. a = Inr o3 \<and> rest = [(RolloutStatus, Inl e)] \<and> r = ServerError e))))
   \<and> (delete_api_model en n s = (r2, s2)
        \<and> (GetDeploymentYaml, Inl msg) \<in> set (io (new_events s s2)) \<longrightarrow>
      (\<exists>o1 x.
         io (new_events s s2) =
           [(KubectlApply, Inr o1), (GetDeploymentYaml, Inl msg), (RolloutRestart, x)]
         \<and> r2 = (case x of Inl e \<Rightarrow> ServerError e
                  | Inr out \<Rightarrow> DeleteOk (''Model '' @ n @ '' deleted successfully''))))"
proof (intro conjI impI)
  assume "fst (exec en GetDeploymentYaml (disk s) (world s)) = Inl msg"
  then show "fst (checkIfModelMountExists en n s) = False"
    by (cases "exec en GetDeploymentYaml (disk s) (world s)")
       (simp add: checkIfModelMountExists_def executeCommand_def)
next
  assume a: "post_api_deploy en n code s = (r, s')
        \<and> (GetDeploymentYaml, Inl msg) \<in> set (io (new_events s s'))"
  then have q: "(GetDeploymentYaml, Inl msg) \<in> set (io (new_events s s'))"
    and run: "post_api_deploy en n code s = (r, s')" by simp_all
  from post_api_deploy_run [OF run ran_if_member [OF q]] obtain res where
    shape: "deploy_run n (io (new_events s s')) res"
    and r: "r = (case res of Inl message \<Rightarrow> ServerError message | Inr steps \<Rightarrow> DeployOk steps)"
    by blast
  from shape q r
  show "\<exists>o1 o2 a rest.
         io (new_events s s') =
           [(KubectlApply, Inr o1), (RolloutRestart, Inr o2), (GetDeploymentYaml, Inl msg),
            (PatchAddMount n, a)] @ rest
         \<and> ((\<exists>o3 o4. a = Inr o3 \<and> rest = [(RolloutStatus, Inr o4)]
                \<and> r = DeployOk [(''apply'', o1), (''restart'', o2), (''mount'', o3), (''status'', o4)])
            \<or> (\<exists>e. a = Inl e \<and> rest = [] \<and> r = ServerError e)
            \<or> (\<exists>o3 e. a = Inr o3 \<and> rest = [(RolloutStatus, Inl e)] \<and> r = ServerError e))"
    by cases (auto simp: mount_reported_def)
next
  assume a: "delete_api_model en n s = (r2, s2)
        \<and> (GetDeploymentYaml, Inl msg) \<in> set (io (new_events s s2))"
  then have q: "(GetDeploymentYaml, Inl msg) \<in> set (io (new_events s s2))"
    and run: "delete_api_model en n s = (r2, s2)" by simp_all
  from delete_api_model_run [OF run ran_if_member [OF q]] obtain res where
    shape: "delete_run en n (io (new_events s s2)) res"
    and r: "r2 = (case res of Inl message \<Rightarrow> ServerError message
                   | Inr u \<Rightarrow> DeleteOk (''Model '' @ n @ '' deleted successfully''))"
    by blast
  from shape q r
  show "\<exists>o1 x.
         io (new_events s s2) =
           [(KubectlApply, Inr o1), (GetDeploymentYaml, Inl msg), (RolloutRestart, x)]
         \<and> r2 = (case x of Inl e \<Rightarrow> ServerError e
                  | Inr out \<Rightarrow> DeleteOk (''Model '' @ n @ '' deleted successfully''))"
    by cases (auto simp: mount_reported_def restart_result_def split: sum.splits)
qed

text \<open>
  C10, witness: \<^verbatim>\<open>Orders\<close> is tracked already; the query fails with
  \<^verbatim>\<open>connection refused\<close> and every other command succeeds. The deploy of \<^verbatim>\<open>Orders\<close>
  runs the patch and succeeds, the delete of \<^verbatim>\<open>Orders\<close> runs apply, the query and the
  restart, and succeeds.
\<close>

theorem mount_query_failure_swallowed_witness:
  "fst (exec (cluster query_fails) GetDeploymentYaml (disk two_models) (world two_models)) =
     Inl ''connection refused''
   \<and> fst (checkIfModelMountExists (cluster query_fails) ''Orders'' two_models) = False
   \<and> post_api_deploy (cluster query_fails) ''Orders'' ''cube(`Orders`, {sql: `SELECT 3`})'' two_models =
       (DeployOk [(''apply'', ''configmap/cube-models configured''),
          (''restart'', ''deployment.apps/cube restarted''),
          (''mount'', ''deployment.apps/cube patched''),
          (''status'', ''deployment rolled out'')],
        snd (post_api_deploy (cluster query_fails) ''Orders'' ''cube(`Orders`, {sql: `SELECT 3`})'' two_models))
   \<and> (GetDeploymentYaml, Inl ''connection refused'') \<in> set (io (new_events two_models
        (snd (post_api_deploy (cluster query_fails) ''Orders'' ''cube(`Orders`, {sql: `SELECT 3`})'' two_models))))
   \<and> (\<exists>o1 o2 a rest.
         io (new_events two_models
           (snd (post_api_deploy (cluster query_fails) ''Orders'' ''cube(`Orders`, {sql: `SELECT 3`})'' two_models))) =
           [(KubectlApply, Inr o1), (RolloutRestart, Inr o2),
            (GetDeploymentYaml, Inl ''connection refused''), (PatchAddMount ''Orders'', a)] @ rest)
   \<and> delete_api_model (cluster query_fails) ''Orders'' two_models =
       (DeleteOk ''Model Orders deleted successfully'',
        snd (delete_api_model (cluster query_fails) ''Orders'' two_models))
   \<and> (GetDeploymentYaml, Inl ''connection refused'') \<in> set (io (new_events two_models
        (snd (delete_api_model (cluster query_fails) ''Orders'' two_models))))
   \<and> (\<exists>o1 x.
         io (new_events two_models (snd (delete_api_model (cluster query_fails) ''Orders'' two_models))) =
           [(KubectlApply, Inr o1), (GetDeploymentYaml, Inl ''connection refused''), (RolloutRestart, x)])"
proof -
  let ?dep = "post_api_deploy (cluster query_fails) ''Orders'' ''cube(`Orders`, {sql: `SELECT 3`})'' two_models"
  let ?del = "delete_api_model (cluster query_fails) ''Orders'' two_models"
  have h1: "fst (exec (cluster query_fails) GetDeploymentYaml (disk two_models) (world two_models)) =
     Inl ''connection refused''"
    by (simp add: cluster_def query_fails_def)
  have h2: "?dep = (DeployOk [(''apply'', ''configmap/cube-models configured''),
          (''restart'', ''deployment.apps/cube restarted''),
          (''mount'', ''deployment.apps/cube patched''),
          (''status'', ''deployment rolled out'')], snd ?dep)"
    by (simp add: request_defs query_fails_def two_models_def)
  have h3: "(GetDeploymentYaml, Inl ''connection refused'') \<in> set (io (new_events two_models (snd ?dep)))"
    by (simp add: request_defs query_fails_def two_models_def)
  have h4: "?del = (DeleteOk ''Model Orders deleted successfully'', snd ?del)"
    by (simp add: request_defs query_fails_def two_models_def)
  have h5: "(GetDeploymentYaml, Inl ''connection refused'') \<in> set (io (new_events two_models (snd ?del)))"
    by (simp add: request_defs query_fails_def two_models_def)
  note inst = mount_query_failure_swallowed [of "cluster query_fails" two_models
      "''connection refused''" "''Orders''" "''cube(`Orders`, {sql: `SELECT 3`})''" _ "snd ?dep" _ "snd ?del"]
  from inst h1 h2 h3 h4 h5 show ?thesis by blast
qed

subsection \<open>Listing\<close>

text \<open>What a load makes of a document the server wrote for the models \<open>D\<close>: a name
  without \<^verbatim>\<open>.js\<close> in it gets the text the document has for it, and keeps the text of
  \<^verbatim>\<open>currentModels\<close> when the document does not have it.\<close>

lemma list_merges:
  assumes "disk s = Some (YConfigMap (build_configMap D))" and "distinct (map fst D)"
    and "\<not> str_includes n ''.js''"
  shows "\<exists>m. fst (get_api_models s) = ModelsResp m \<and>
     map_of m n = (case map_of D n of Some t \<Rightarrow> Some t | None \<Rightarrow> map_of (currentModels s) n)"
  using loaded_lookup [OF assms] by (simp add: get_api_models_def Let_def)

text \<open>
  C4, the code at the failing input. The process tracks \<^verbatim>\<open>Customers\<close> and \<^verbatim>\<open>Orders\<close>;
  an external editor has removed \<^verbatim>\<open>Customers.js\<close> from the document, whose data section
  now holds \<^verbatim>\<open>Orders.js\<close> alone. The list request still answers with both models: the
  load writes the document's entries into \<^verbatim>\<open>currentModels\<close> and removes nothing.
\<close>

theorem list_keeps_removed_name:
  "data_section edited_outside = Some [(''Orders.js'', ''cube(`Orders`, {sql: `SELECT 2`})'')]
   \<and> fst (get_api_models edited_outside) =
       ModelsResp [(''Customers'', ''cube(`Customers`, {sql: `SELECT 1`})''),
                   (''Orders'', ''cube(`Orders`, {sql: `SELECT 2`})'')]"
  by (simp add: load_defs edited_outside_def build_configMap_def models_data_def)

subsection \<open>Deploy, then reload\<close>

text \<open>For a name without \<^verbatim>\<open>.js\<close> in it, and a deploy that wrote the document (so a
  command ran), the text deployed is the text read back, by a restarted process and by a
  list request of the same process.\<close>

lemma reload_after_deploy:
  assumes "distinct (map fst (currentModels s))" and "\<not> str_includes n ''.js''"
    and "post_api_deploy en n code s = (r, s')" and "new_events s s' \<noteq> []"
  shows "map_of (currentModels (start_server s')) n = Some code"
    and "\<exists>m. fst (get_api_models s') = ModelsResp m \<and> map_of m n = Some code"
proof -
  from post_api_deploy_run [OF assms(3,4)]
  have m: "currentModels s' = AList.update n code (currentModels s)"
    and d: "disk s' = Some (YConfigMap (build_configMap (currentModels s')))" by blast+
  from assms(1) m have dist: "distinct (map fst (currentModels s'))"
    by (simp add: distinct_update)
  from m have entry: "map_of (currentModels s') n = Some code"
    by (simp add: update_conv')
  from d have d0: "disk (s'\<lparr>currentModels := []\<rparr>) = Some (YConfigMap (build_configMap (currentModels s')))"
    by simp
  from loaded_lookup [OF d0 dist assms(2)] entry
  show "map_of (currentModels (start_server s')) n = Some code"
    by (simp add: start_server_def)
  from loaded_lookup [OF d dist assms(2)] entry
  show "\<exists>m. fst (get_api_models s') = ModelsResp m \<and> map_of m n = Some code"
    by (simp add: get_api_models_def Let_def)
qed

text \<open>
  C6, the code at failing inputs. \<^verbatim>\<open>Orders.json\<close> is deployed on the empty ModelSet and
  every command succeeds; the document holds the key \<^verbatim>\<open>Orders.json.js\<close>. A restarted
  process reads it back under \<^verbatim>\<open>key.replace('.js', '')\<close>, which removes the first
  \<^verbatim>\<open>.js\<close>: it tracks \<^verbatim>\<open>Orderson.js\<close> and answers 404 for \<^verbatim>\<open>Orders.json\<close>. In one and
  the same process, with \<^verbatim>\<open>Orderson.js\<close> and \<^verbatim>\<open>Orders.json\<close> tracked, a deploy of
  \<^verbatim>\<open>Orderson.js\<close> followed by a list request answers with the text of
  \<^verbatim>\<open>Orders.json\<close> under \<^verbatim>\<open>Orderson.js\<close>, not with the text deployed.
\<close>

theorem reload_loses_dotted_name:
  "fst (post_api_deploy (cluster healthy) ''Orders.json'' Widget_code initial) =
     DeployOk [(''apply'', ''configmap/cube-models configured''),
        (''restart'', ''deployment.apps/cube restarted''),
        (''mount'', ''deployment.apps/cube patched''),
        (''status'', ''deployment rolled out'')]
   \<and> currentModels (start_server
        (snd (post_api_deploy (cluster healthy) ''Orders.json'' Widget_code initial))) =
       [(''Orderson.js'', Widget_code)]
   \<and> fst (get_api_model ''Orders.json'' (start_server
        (snd (post_api_deploy (cluster healthy) ''Orders.json'' Widget_code initial)))) =
       NotFound ''Model Orders.json not found''
   \<and> fst (get_api_models
        (snd (post_api_deploy (cluster healthy) ''Orderson.js'' Widget_code dotted_names))) =
       ModelsResp [(''Orderson.js'', ''cube(`B`, {sql: `SELECT 2`})''),
                   (''Orders.json'', ''cube(`B`, {sql: `SELECT 2`})'')]"
  by (simp add: request_defs load_defs dotted_names_def)

subsection \<open>Delete, then list\<close>

text \<open>For a name without \<^verbatim>\<open>.js\<close> in it, the list request after a delete that wrote
  the document does not have the name; and the delete of a name that is not tracked leaves
  \<^verbatim>\<open>currentModels\<close> as it was.\<close>

lemma delete_then_list:
  assumes "distinct (map fst (currentModels s))" and "\<not> str_includes n ''.js''"
    and "delete_api_model en n s = (r, s')" and "new_events s s' \<noteq> []"
  shows "\<exists>m. fst (get_api_models s') = ModelsResp m \<and> n \<notin> fst ` set m"
proof -
  from delete_api_model_run [OF assms(3,4)]
  have m: "currentModels s' = AList.delete n (currentModels s)"
    and d: "disk s' = Some (YConfigMap (build_configMap (currentModels s')))" by blast+
  from assms(1) m have dist: "distinct (map fst (currentModels s'))"
    by (simp add: distinct_delete)
  from m have gone: "map_of (currentModels s') n = None"
    by (simp add: delete_conv')
  from loaded_lookup [OF d dist assms(2)] gone
  have "map_of (currentModels (snd (loadExistingModels s'))) n = None" by simp
  then show ?thesis
    by (simp add: get_api_models_def Let_def map_of_eq_None_iff)
qed

lemma delete_absent_noop:
  assumes "n \<notin> fst ` set (currentModels s)" and "delete_api_model en n s = (r, s')"
  shows "currentModels s' = currentModels s"
  using delete_api_model_models [OF assms(2)] assms(1) by simp

text \<open>
  C7, the code at the failing input. \<^verbatim>\<open>Orderson.js\<close> and \<^verbatim>\<open>Orders.json\<close> are tracked.
  The delete of \<^verbatim>\<open>Orderson.js\<close> succeeds and removes it from \<^verbatim>\<open>currentModels\<close>; the
  list request that follows reads the key \<^verbatim>\<open>Orders.json.js\<close> back as
  \<^verbatim>\<open>Orderson.js\<close>, and its answer contains the deleted name.
\<close>

theorem delete_then_list_dotted_name:
  "fst (delete_api_model (cluster healthy) ''Orderson.js'' dotted_names) =
     DeleteOk ''Model Orderson.js deleted successfully''
   \<and> currentModels (snd (delete_api_model (cluster healthy) ''Orderson.js'' dotted_names)) =
       [(''Orders.json'', ''cube(`B`, {sql: `SELECT 2`})'')]
   \<and> fst (get_api_models (snd (delete_api_model (cluster healthy) ''Orderson.js'' dotted_names))) =
       ModelsResp [(''Orders.json'', ''cube(`B`, {sql: `SELECT 2`})''),
                   (''Orderson.js'', ''cube(`B`, {sql: `SELECT 2`})'')]"
  by (simp add: request_defs load_defs dotted_names_def)

subsection \<open>Validation\<close>

text \<open>What each of the two validations accepts: the editor's checks a marker, a
  structural marker and the parser; the server's checks a marker and the parser.\<close>

lemma validateModel_accepts:
  "validateModel en code = Inr () \<longleftrightarrow>
     (str_includes code ''cube('' \<or> str_includes code ''view('') \<and>
     (str_includes code ''sql:'' \<or> str_includes code ''cubes:'') \<and>
     new_Function en code = None"
  by (simp add: validateModel_def split: option.splits)

lemma post_api_validate_accepts:
  "post_api_validate en code = ValidateResp True ''Model is valid'' \<longleftrightarrow>
     (str_includes code ''cube('' \<or> str_includes code ''view('') \<and> new_Function en code = None"
  by (simp add: post_api_validate_def split: option.splits)

text \<open>
  C8, the code at the failing input. The text \<^verbatim>\<open>cube(`Widget`, {})\<close> contains the marker
  \<^verbatim>\<open>cube(\<close>, contains neither \<^verbatim>\<open>sql:\<close> nor \<^verbatim>\<open>cubes:\<close>, and parses. The server's
  \<^verbatim>\<open>POST /api/validate\<close> answers that the model is valid; the editor's
  \<^verbatim>\<open>validateModel\<close> rejects it for the missing structural marker.
\<close>

theorem server_validate_skips_structure:
  "str_includes ''cube(`Widget`, {})'' ''cube(''
   \<and> \<not> str_includes ''cube(`Widget`, {})'' ''sql:''
   \<and> \<not> str_includes ''cube(`Widget`, {})'' ''cubes:''
   \<and> post_api_validate (cluster healthy) ''cube(`Widget`, {})'' = ValidateResp True ''Model is valid''
   \<and> validateModel (cluster healthy) ''cube(`Widget`, {})'' =
       Inl ''Model must contain SQL definition or cube references''"
  by (simp add: post_api_validate_def validateModel_def cluster_def)

subsection \<open>Reading one model\<close>

text \<open>The read request answers from \<^verbatim>\<open>currentModels\<close> alone: with the text of a tracked
  name when the text is not empty, with 404 for a name that is not tracked, and the same
  whatever the document on disk holds.\<close>

lemma get_api_model_present:
  "map_of (currentModels s) n = Some t \<Longrightarrow> t \<noteq> [] \<Longrightarrow> get_api_model n s = (ModelResp t, s)"
  by (simp add: get_api_model_def)

lemma get_api_model_absent:
  "map_of (currentModels s) n = None \<Longrightarrow>
   get_api_model n s = (NotFound (''Model '' @ n @ '' not found''), s)"
  by (simp add: get_api_model_def)

lemma get_api_model_ignores_disk:
  "fst (get_api_model n (s\<lparr>disk := d\<rparr>)) = fst (get_api_model n s)"
  by (simp add: get_api_model_def split: option.splits)

text \<open>
  C9, the code at the failing input. \<^verbatim>\<open>Widget\<close> is deployed with the empty text, which
  the deploy request accepts; \<^verbatim>\<open>currentModels\<close> then holds the name with the empty text,
  and the read request answers 404 for it, because the empty string is falsy.
\<close>

theorem get_empty_model_not_found:
  "map_of (currentModels (snd (post_api_deploy (cluster healthy) ''Widget'' [] initial)))
     ''Widget'' = Some []
   \<and> fst (get_api_model ''Widget'' (snd (post_api_deploy (cluster healthy) ''Widget'' [] initial))) =
       NotFound ''Model Widget not found''"
  by (simp add: request_defs load_defs)

end
